theory Spec2Isabelle
  imports Complex_Main "HOL-Library.Multiset"
begin

section \<open>Errors raised by the notebook's cells\<close>

text \<open>
  The notebook \<^verbatim>\<open>TradingCustomerChurnClassifierSparkML\<close> is a sequence of cells. A cell
  that raises stops the run, so every operation that can raise returns \<open>error + 'a\<close>
  with the exception on the left.
\<close>

datatype error =
    ValueError          \<comment> \<open>\<^verbatim>\<open>list.remove(x)\<close>: x not in list\<close>
  | KeyError            \<comment> \<open>\<^verbatim>\<open>DataFrame.drop\<close>: label not found in axis\<close>
  | IndexError          \<comment> \<open>list or array index out of range\<close>
  | ZeroDivisionError   \<comment> \<open>float division by zero\<close>
  | AnalysisException   \<comment> \<open>a column name that the dataframe cannot resolve\<close>
  | SparkException      \<comment> \<open>a value that a transformer cannot process\<close>
  | NameError           \<comment> \<open>a variable or object that no earlier cell has made\<close>
  | IllegalArgumentException   \<comment> \<open>a stage whose output column already exists\<close>

definition bind_err :: "error + 'a \<Rightarrow> ('a \<Rightarrow> error + 'b) \<Rightarrow> error + 'b" where
  "bind_err r f = (case r of Inl e \<Rightarrow> Inl e | Inr x \<Rightarrow> f x)"

section \<open>Data preparation: the column lists (cells 19 to 22 and 27)\<close>

text \<open>
  \<^verbatim>\<open>categoricalColumns = ['GENDER', 'STATUS', 'HOMEOWNER']\<close>
\<close>

definition categoricalColumns :: "string list" where
  "categoricalColumns = [''GENDER'', ''STATUS'', ''HOMEOWNER'']"

text \<open>
  \<^verbatim>\<open>non_categoricalColumns = [c for c in df_churn_pd.columns if c not in categoricalColumns]\<close>

  The argument is \<^verbatim>\<open>df_churn_pd.columns\<close>, the column labels of the pandas dataframe in
  their order. pandas allows a label to occur more than once, so the labels are a list.
\<close>

definition non_categoricalColumns_all :: "string list \<Rightarrow> string list" where
  "non_categoricalColumns_all cols = [c \<leftarrow> cols. c \<notin> set categoricalColumns]"

text \<open>
  Python's \<^verbatim>\<open>list.remove(x)\<close> removes the first item equal to \<open>x\<close> and raises
  ValueError when there is none.
\<close>

definition list_remove :: "'a \<Rightarrow> 'a list \<Rightarrow> error + 'a list" where
  "list_remove x xs = (if x \<in> set xs then Inr (remove1 x xs) else Inl ValueError)"

text \<open>
  \<^verbatim>\<open>non_categoricalColumns.remove('CHURNRISK')\<close>: the list as it is after cell 22.
\<close>

definition non_categoricalColumns :: "string list \<Rightarrow> error + string list" where
  "non_categoricalColumns cols = list_remove ''CHURNRISK'' (non_categoricalColumns_all cols)"

text \<open>
  \<^verbatim>\<open>assemblerInputs = [c + "classVec" for c in categoricalColumns] + non_categoricalColumns\<close>
\<close>

definition assemblerInputs_of :: "string list \<Rightarrow> string list" where
  "assemblerInputs_of ncc = map (\<lambda>c. c @ ''classVec'') categoricalColumns @ ncc"

definition assemblerInputs :: "string list \<Rightarrow> error + string list" where
  "assemblerInputs cols =
     bind_err (non_categoricalColumns cols) (\<lambda>ncc. Inr (assemblerInputs_of ncc))"

section \<open>Data preparation: the Spark dataframe and the integer casts (cells 25 and 26)\<close>

text \<open>
  \<^verbatim>\<open>spark_df_churn = spark.createDataFrame(df_churn_pd)\<close> gives a Spark dataframe whose
  schema has one field for every column of the pandas dataframe, in their order, also when
  two columns have the same label. The casts only change the types of columns, so the
  dataframe is represented here by the list of its fields, each a name and a type.
\<close>

datatype dtype = StringType | IntegerType | LongType | DoubleType

type_synonym spark_df = "(string \<times> dtype) list"

definition createDataFrame :: "(string \<times> dtype) list \<Rightarrow> spark_df" where
  "createDataFrame flds = flds"

text \<open>
  A reference to a column by name, as in \<^verbatim>\<open>spark_df_churn[colnum]\<close> or the input column
  of a stage that is fitted, is resolved by Spark's analyzer. The analyzer compares names
  without regard to case (the default of \<^verbatim>\<open>spark.sql.caseSensitive\<close>); the letters A to Z
  are folded here. It reads a dot in the name as the access to a field of a struct column
  and a backtick as a quotation, and \<^verbatim>\<open>*\<close> as all columns; the dataframe made from the
  pandas dataframe has no struct column, so only a plain name refers to a column. The
  reference raises AnalysisException unless exactly one field has the name.
\<close>

definition lower_char :: "char \<Rightarrow> char" where
  "lower_char c =
     (case map_of (zip ''ABCDEFGHIJKLMNOPQRSTUVWXYZ'' ''abcdefghijklmnopqrstuvwxyz'') c of
        Some l \<Rightarrow> l
      | None \<Rightarrow> c)"

definition same_name :: "string \<Rightarrow> string \<Rightarrow> bool" where
  "same_name a b \<longleftrightarrow> map lower_char a = map lower_char b"

definition plain_name :: "string \<Rightarrow> bool" where
  "plain_name n \<longleftrightarrow> n \<noteq> ''*'' \<and> CHR ''.'' \<notin> set n \<and> CHR 0x60 \<notin> set n"

definition resolve :: "spark_df \<Rightarrow> string \<Rightarrow> error + string \<times> dtype" where
  "resolve df name =
     (if plain_name name
      then (case [f \<leftarrow> df. same_name (fst f) name] of
              [f] \<Rightarrow> Inr f
            | _ \<Rightarrow> Inl AnalysisException)
      else Inl AnalysisException)"

text \<open>
  Cell 25:
  \<^verbatim>\<open>
  spark_df_churn = spark.createDataFrame(df_churn_pd)
  labelIndexer = StringIndexer(inputCol='CHURNRISK', outputCol='label').fit(spark_df_churn)
  \<close>
  The fit checks the schema, where the output column must not exist yet, and reads the
  input column, which the analyzer resolves. The labels that the indexer finds are data
  and are not part of the dataframe's fields.
\<close>

definition cell_25 :: "(string \<times> dtype) list \<Rightarrow> error + spark_df" where
  "cell_25 flds =
     (let spark_df_churn = createDataFrame flds
      in if ''label'' \<in> set (map fst spark_df_churn) then Inl IllegalArgumentException
         else bind_err (resolve spark_df_churn ''CHURNRISK'') (\<lambda>f. Inr spark_df_churn))"

text \<open>
  \<^verbatim>\<open>spark_df_churn.withColumn(colnum, spark_df_churn[colnum].cast(IntegerType()))\<close>:
  \<^verbatim>\<open>spark_df_churn[colnum]\<close> is resolved as above; \<^verbatim>\<open>withColumn\<close> then puts the cast
  column, named \<open>colnum\<close> and of type IntegerType, in the place of every field that has
  this name.
\<close>

definition withColumn_cast_Integer :: "string \<Rightarrow> spark_df \<Rightarrow> error + spark_df" where
  "withColumn_cast_Integer colnum df =
     bind_err (resolve df colnum) (\<lambda>c.
     Inr (map (\<lambda>f. if same_name (fst f) colnum then (colnum, IntegerType) else f) df))"

text \<open>
  Cell 26:
  \<^verbatim>\<open>for colnum in non_categoricalColumns: spark_df_churn = spark_df_churn.withColumn(...)\<close>
\<close>

fun cast_columns :: "string list \<Rightarrow> spark_df \<Rightarrow> error + spark_df" where
  "cast_columns [] df = Inr df"
| "cast_columns (colnum # rest) df =
     bind_err (withColumn_cast_Integer colnum df) (cast_columns rest)"

text \<open>The state after cell 27: the column list, the cast dataframe, the assembler's inputs.\<close>

record prepared =
  p_non_categoricalColumns :: "string list"
  p_spark_df_churn :: spark_df
  p_assemblerInputs :: "string list"

text \<open>
  Cells 20 to 27 in their order. The argument is the pandas dataframe \<^verbatim>\<open>df_churn_pd\<close>,
  given by its column labels and the Spark type of each column. The first cell that
  raises ends the run.
\<close>

definition prepare_data :: "(string \<times> dtype) list \<Rightarrow> error + prepared" where
  "prepare_data flds =
     bind_err (non_categoricalColumns (map fst flds)) (\<lambda>ncc.
     bind_err (cell_25 flds) (\<lambda>spark_df_churn.
     bind_err (cast_columns ncc spark_df_churn) (\<lambda>cast_df.
     Inr \<lparr>p_non_categoricalColumns = ncc, p_spark_df_churn = cast_df,
          p_assemblerInputs = assemblerInputs_of ncc\<rparr>)))"

section \<open>Feature assembly (cell 27, applied by the fitted pipeline)\<close>

text \<open>
  A row of the dataframe that reaches the assembler: a dictionary from column name to cell.
  Raw columns hold integers, strings or nulls; the \<^verbatim>\<open>classVec\<close> columns, which the
  one-hot encoders add, hold vectors.
\<close>

datatype cell = IntC int | StrC string | VecC "real list" | NullC

type_synonym row = "string \<rightharpoonup> cell"

text \<open>
  Modelled from the spec: \<^verbatim>\<open>VectorAssembler(inputCols=assemblerInputs, outputCol="features")\<close>
  is the library's transformer, and only its construction is in the notebook. The spec
  describes the feature vector as the one-hot vectors of the categorical columns
  concatenated with the numeric columns: a numeric cell gives one component, a vector cell
  gives its components, in the order of the input columns. A column the row does not
  have, a null and a string cannot be assembled.
\<close>

fun VectorAssembler_transform :: "string list \<Rightarrow> row \<Rightarrow> error + real list" where
  "VectorAssembler_transform [] r = Inr []"
| "VectorAssembler_transform (c # cs) r =
     (case r c of
        None \<Rightarrow> Inl AnalysisException
      | Some NullC \<Rightarrow> Inl SparkException
      | Some (StrC s) \<Rightarrow> Inl SparkException
      | Some (IntC n) \<Rightarrow>
          bind_err (VectorAssembler_transform cs r) (\<lambda>v. Inr (real_of_int n # v))
      | Some (VecC x) \<Rightarrow>
          bind_err (VectorAssembler_transform cs r) (\<lambda>v. Inr (x @ v)))"

text \<open>The width of the cell that a row holds in a column (0 when it has no vector there).\<close>

definition width :: "row \<Rightarrow> string \<Rightarrow> nat" where
  "width r c = (case r c of Some (VecC x) \<Rightarrow> length x | _ \<Rightarrow> 0)"

text \<open>The number that a numeric cell contributes to the vector.\<close>

definition numeric_value :: "row \<Rightarrow> string \<Rightarrow> real" where
  "numeric_value r c = (case r c of Some (IntC n) \<Rightarrow> real_of_int n | _ \<Rightarrow> 0)"

section \<open>The pipeline stages and the two pipelines (cells 24, 25, 30, 32, 41, 46)\<close>

text \<open>
  The stage objects that the notebook constructs, with the parameters it gives them, and
  the fitted models that \<^verbatim>\<open>fit\<close> puts in the place of the estimators.
\<close>

datatype stage =
    StringIndexer string string               \<comment> \<open>inputCol, outputCol\<close>
  | OneHotEncoder string string               \<comment> \<open>inputCol, outputCol\<close>
  | StringIndexerModel string string "string list"   \<comment> \<open>inputCol, outputCol, labels\<close>
  | VectorAssembler "string list" string      \<comment> \<open>inputCols, outputCol\<close>
  | RandomForestClassifier string string      \<comment> \<open>labelCol, featuresCol\<close>
  | NaiveBayes string string                  \<comment> \<open>labelCol, featuresCol\<close>
  | IndexToString string string "string list"   \<comment> \<open>inputCol, outputCol, labels\<close>
  | RandomForestClassificationModel string string
  | NaiveBayesModel string string

text \<open>
  A Python list is an object: two variables can name the same list, and an update through
  one is seen through the other. Lists of stages live in a store, and a variable holds a
  reference into it. \<^verbatim>\<open>Pipeline(stages=xs)\<close> keeps the list it is given as the value of
  its \<^verbatim>\<open>stages\<close> parameter, so a pipeline object is the reference of its stage list.
\<close>

type_synonym ref = nat

type_synonym store = "ref \<rightharpoonup> stage list"

record Pipeline =
  getStages :: ref

text \<open>The variables of the notebook that concern the pipelines.\<close>

record notebook =
  heap :: store
  stages :: ref
  pipeline :: "Pipeline option"
  model :: "stage list option"
  stages_nb :: "ref option"
  pipeline_nb :: "Pipeline option"
  model_nb :: "stage list option"
  published_model :: "(stage list \<times> stage list) option"

text \<open>\<^verbatim>\<open>xs += ys\<close> on a list extends the object in place.\<close>

definition list_iadd :: "ref \<Rightarrow> stage list \<Rightarrow> store \<Rightarrow> error + store" where
  "list_iadd a ys h =
     (case h a of None \<Rightarrow> Inl NameError | Some xs \<Rightarrow> Inr (h(a \<mapsto> xs @ ys)))"

text \<open>
  A Python index into a list of a given length: \<open>0, ..., len - 1\<close> count from the
  front, \<open>-1, ..., -len\<close> from the back, and every other index is out of range.
\<close>

definition py_index :: "nat \<Rightarrow> int \<Rightarrow> nat option" where
  "py_index len i =
     (if 0 \<le> i \<and> i < int len then Some (nat i)
      else if i < 0 \<and> - int len \<le> i then Some (nat (int len + i))
      else None)"

text \<open>\<^verbatim>\<open>xs[i] = v\<close> on a list; an index out of range raises IndexError.\<close>

definition list_setitem :: "ref \<Rightarrow> int \<Rightarrow> stage \<Rightarrow> store \<Rightarrow> error + store" where
  "list_setitem a i v h =
     (case h a of
        None \<Rightarrow> Inl NameError
      | Some xs \<Rightarrow>
          (case py_index (length xs) i of
             None \<Rightarrow> Inl IndexError
           | Some k \<Rightarrow> Inr (h(a \<mapsto> xs[k := v]))))"

text \<open>\<^verbatim>\<open>xs[i]\<close> on a list, with the same index rule.\<close>

definition list_getitem :: "'a list \<Rightarrow> int \<Rightarrow> error + 'a" where
  "list_getitem xs i =
     (case py_index (length xs) i of
        None \<Rightarrow> Inl IndexError
      | Some k \<Rightarrow> Inr (xs ! k))"

text \<open>
  Cell 24:
  \<^verbatim>\<open>
  stages = []
  for categoricalCol in categoricalColumns:
      stringIndexer = StringIndexer(inputCol=categoricalCol, outputCol=categoricalCol + "Index")
      encoder = OneHotEncoder(inputCol=categoricalCol + "Index", outputCol=categoricalCol + "classVec")
      stages += [stringIndexer, encoder]
  \<close>
\<close>

fun encoder_stages :: "string list \<Rightarrow> ref \<Rightarrow> store \<Rightarrow> error + store" where
  "encoder_stages [] a h = Inr h"
| "encoder_stages (categoricalCol # rest) a h =
     bind_err
       (list_iadd a [StringIndexer categoricalCol (categoricalCol @ ''Index''),
                     OneHotEncoder (categoricalCol @ ''Index'') (categoricalCol @ ''classVec'')] h)
       (encoder_stages rest a)"

definition cell_24 :: "error + notebook" where
  "cell_24 =
     bind_err (encoder_stages categoricalColumns 0 [0 \<mapsto> []]) (\<lambda>h.
     Inr \<lparr>heap = h, stages = 0, pipeline = None, model = None, stages_nb = None,
          pipeline_nb = None, model_nb = None, published_model = None\<rparr>)"

text \<open>
  Cells 25, 27 and 30. The labels that the label indexer finds in the data and the
  assembler's input columns are the arguments.
  \<^verbatim>\<open>
  labelIndexer = StringIndexer(inputCol='CHURNRISK', outputCol='label').fit(spark_df_churn)
  assembler = VectorAssembler(inputCols=assemblerInputs, outputCol="features")
  rf = RandomForestClassifier(labelCol="label", featuresCol="features")
  labelConverter = IndexToString(inputCol="prediction", outputCol="predictedLabel",
                                 labels=labelIndexer.labels)
  stages += [labelIndexer, assembler, rf, labelConverter]
  pipeline = Pipeline(stages=stages)
  \<close>
\<close>

definition cell_30 :: "string list \<Rightarrow> string list \<Rightarrow> notebook \<Rightarrow> error + notebook" where
  "cell_30 labels ins nb =
     (let labelIndexer = StringIndexerModel ''CHURNRISK'' ''label'' labels;
          assembler = VectorAssembler ins ''features'';
          rf = RandomForestClassifier ''label'' ''features'';
          labelConverter = IndexToString ''prediction'' ''predictedLabel'' labels
      in bind_err (list_iadd (stages nb) [labelIndexer, assembler, rf, labelConverter] (heap nb))
           (\<lambda>h. Inr (nb\<lparr>heap := h, pipeline := Some \<lparr>getStages = stages nb\<rparr>\<rparr>)))"

text \<open>
  \<^verbatim>\<open>pipeline.fit(train)\<close> reads the pipeline's stage list as it is at the call and returns a
  pipeline model with a stage list of its own: every estimator is replaced by the model
  fitted from it, every transformer is kept. What is learnt from the data is outside this
  model of the stages, except the labels of an indexer, which \<open>labels_of\<close> gives.
\<close>

fun fit_stage :: "(string \<Rightarrow> string list) \<Rightarrow> stage \<Rightarrow> stage" where
  "fit_stage labels_of (StringIndexer i out) = StringIndexerModel i out (labels_of i)"
| "fit_stage labels_of (RandomForestClassifier l f) = RandomForestClassificationModel l f"
| "fit_stage labels_of (NaiveBayes l f) = NaiveBayesModel l f"
| "fit_stage labels_of s = s"

definition Pipeline_fit :: "(string \<Rightarrow> string list) \<Rightarrow> Pipeline \<Rightarrow> store \<Rightarrow> error + stage list" where
  "Pipeline_fit labels_of p h =
     (case h (getStages p) of
        None \<Rightarrow> Inl NameError
      | Some xs \<Rightarrow> Inr (map (fit_stage labels_of) xs))"

text \<open>Cell 32: \<^verbatim>\<open>model = pipeline.fit(train)\<close>\<close>

definition cell_32 :: "(string \<Rightarrow> string list) \<Rightarrow> notebook \<Rightarrow> error + notebook" where
  "cell_32 labels_of nb =
     (case pipeline nb of
        None \<Rightarrow> Inl NameError
      | Some p \<Rightarrow>
          bind_err (Pipeline_fit labels_of p (heap nb)) (\<lambda>m. Inr (nb\<lparr>model := Some m\<rparr>)))"

text \<open>
  Cell 41:
  \<^verbatim>\<open>
  nb = NaiveBayes(labelCol="label", featuresCol="features")
  stages_nb = stages
  stages_nb[-2] = nb
  pipeline_nb = Pipeline(stages = stages_nb)
  model_nb = pipeline_nb.fit(train)
  \<close>
  The assignment \<^verbatim>\<open>stages_nb = stages\<close> copies the reference, not the list.
\<close>

definition cell_41 :: "(string \<Rightarrow> string list) \<Rightarrow> notebook \<Rightarrow> error + notebook" where
  "cell_41 labels_of nb =
     (let naive = NaiveBayes ''label'' ''features'';
          stages_nb_ref = stages nb
      in bind_err (list_setitem stages_nb_ref (- 2) naive (heap nb)) (\<lambda>h.
         bind_err (Pipeline_fit labels_of \<lparr>getStages = stages_nb_ref\<rparr> h) (\<lambda>m.
         Inr (nb\<lparr>heap := h, stages_nb := Some stages_nb_ref,
                 pipeline_nb := Some \<lparr>getStages = stages_nb_ref\<rparr>,
                 model_nb := Some m\<rparr>))))"

text \<open>
  Cell 46:
  \<^verbatim>\<open>client.repository.store_model(model=model, pipeline=pipeline, ...)\<close>
  The client receives the fitted model and the pipeline; what it can read of the pipeline
  is the stage list that the pipeline refers to at the call.
\<close>

definition cell_46 :: "notebook \<Rightarrow> error + notebook" where
  "cell_46 nb =
     (case (model nb, pipeline nb) of
        (Some m, Some p) \<Rightarrow>
          (case heap nb (getStages p) of
             None \<Rightarrow> Inl NameError
           | Some xs \<Rightarrow> Inr (nb\<lparr>published_model := Some (m, xs)\<rparr>))
      | _ \<Rightarrow> Inl NameError)"

text \<open>The cells in the order of the notebook, up to the fit and up to the upload.\<close>

definition run_to_fit :: "string list \<Rightarrow> string list \<Rightarrow> (string \<Rightarrow> string list) \<Rightarrow> error + notebook" where
  "run_to_fit labels ins labels_of =
     bind_err cell_24 (\<lambda>nb.
     bind_err (cell_30 labels ins nb) (cell_32 labels_of))"

definition run_to_store :: "string list \<Rightarrow> string list \<Rightarrow> (string \<Rightarrow> string list) \<Rightarrow> error + notebook" where
  "run_to_store labels ins labels_of =
     bind_err (run_to_fit labels ins labels_of) (\<lambda>nb.
     bind_err (cell_41 labels_of nb) cell_46)"

text \<open>The classifier stage of a stage list is its last but one: \<^verbatim>\<open>stages[-2]\<close>.\<close>

definition classifier_stage :: "stage list \<Rightarrow> error + stage" where
  "classifier_stage xs = list_getitem xs (- 2)"

section \<open>Evaluation of the model (cells 32, 33, 35 and 37)\<close>

text \<open>
  A row of \<^verbatim>\<open>model.transform(test)\<close> with the columns that the notebook reads:
  \<^verbatim>\<open>results.select(results["ID"], results["CHURNRISK"], results["label"],
  results["predictedLabel"], results["prediction"], results["probability"])\<close>.
  The label and the prediction are the class indices, which Spark holds as doubles.
\<close>

record scored =
  ID :: int
  CHURNRISK :: string
  label :: real
  predictedLabel :: string
  prediction :: real
  probability :: "real list"

text \<open>
  Cell 35:
  \<^verbatim>\<open>results.filter(results.label == results.prediction).count() / float(results.count())\<close>

  \<open>fdiv a b\<close> stands for Python's float division \<^verbatim>\<open>a / float(b)\<close> of the two counts when
  \<open>b\<close> is not zero; dividing by \<^verbatim>\<open>float(0)\<close> raises ZeroDivisionError. The rows of a
  dataset are given as a list; their order is the order of one enumeration of the dataset.
\<close>

definition Model_Precision :: "(nat \<Rightarrow> nat \<Rightarrow> 'q) \<Rightarrow> scored list \<Rightarrow> error + 'q" where
  "Model_Precision fdiv results =
     (let matched = length [r \<leftarrow> results. label r = prediction r];
          total = length results
      in if total = 0 then Inl ZeroDivisionError else Inr (fdiv matched total))"

text \<open>
  Cells 32, 33 and 35 together. \<open>fit\<close> is \<^verbatim>\<open>pipeline.fit\<close> and \<open>transform\<close> is the
  \<^verbatim>\<open>transform\<close> of the fitted model; both are the library's and are arguments here.
  \<^verbatim>\<open>
  model = pipeline.fit(train)
  results = model.transform(test)
  \<close>
\<close>

definition precision_of_run ::
  "('df \<Rightarrow> 'm) \<Rightarrow> ('m \<Rightarrow> 'df \<Rightarrow> scored list) \<Rightarrow> (nat \<Rightarrow> nat \<Rightarrow> 'q) \<Rightarrow> 'df \<Rightarrow> 'df \<Rightarrow> error + 'q" where
  "precision_of_run fit transform fdiv train test =
     (let fitted = fit train;
          results = transform fitted test
      in Model_Precision fdiv results)"

text \<open>
  Cell 37. \<open>accuracy\<close> and \<open>fMeasure\<close> are the two members of the library's
  \<^verbatim>\<open>MulticlassMetrics(predictionAndLabels)\<close> that the cell reads. The result is what the
  cell prints: the value labelled "Model F-measure" and, for each class in ascending
  order, the class and its F-measure.
  \<^verbatim>\<open>
  res = model.transform(test)
  predictions = res.rdd.map(lambda pr: pr.prediction)
  labels = res.rdd.map(lambda pr: pr.label)
  predictionAndLabels = spark.sparkContext.parallelize(zip(predictions.collect(), labels.collect()))
  metrics = MulticlassMetrics(predictionAndLabels)
  f_measure = metrics.accuracy
  labels_itr = labels.distinct().collect()
  for label in sorted(labels_itr):
      print("Class %s F-Measure = %s" % (label, metrics.fMeasure(label)))
  \<close>
\<close>

definition evaluate_model ::
  "('df \<Rightarrow> 'm) \<Rightarrow> ('m \<Rightarrow> 'df \<Rightarrow> scored list) \<Rightarrow>
   ((real \<times> real) list \<Rightarrow> 'q) \<Rightarrow> ((real \<times> real) list \<Rightarrow> real \<Rightarrow> 'q) \<Rightarrow>
   'df \<Rightarrow> 'df \<Rightarrow> 'q \<times> (real \<times> 'q) list" where
  "evaluate_model fit transform accuracy fMeasure train test =
     (let fitted = fit train;
          res = transform fitted test;
          predictions = map prediction res;
          labels = map label res;
          predictionAndLabels = zip predictions labels;
          f_measure = accuracy predictionAndLabels;
          labels_itr = remdups labels
      in (f_measure, map (\<lambda>l. (l, fMeasure predictionAndLabels l)) (sort labels_itr)))"

section \<open>The feature-importance plot (cells 38 and 39)\<close>

text \<open>
  \<^verbatim>\<open>np.argsort(a)\<close> returns indices that sort \<open>a\<close>: a permutation of
  \<open>0, ..., len(a) - 1\<close> along which the values ascend. numpy does not fix the order of the
  indices of equal values (its default sort is not stable).
\<close>

definition is_argsort :: "'a::linorder list \<Rightarrow> nat list \<Rightarrow> bool" where
  "is_argsort a indices \<longleftrightarrow>
     mset indices = mset [0..<length a] \<and> sorted (map (\<lambda>i. a ! i) indices)"

text \<open>
  One such permutation, which takes equal values in the order of their indices. What is
  proved below about the plot uses only that the result is a permutation of the indices.
\<close>

definition argsort :: "'a::linorder list \<Rightarrow> nat list" where
  "argsort a = sort_key (\<lambda>i. a ! i) [0..<length a]"

text \<open>
  \<^verbatim>\<open>a[indices]\<close> for a numpy array \<open>a\<close> and an array of non-negative indices: an index
  that is not below \<open>len(a)\<close> raises IndexError.
\<close>

definition np_take :: "'a list \<Rightarrow> nat list \<Rightarrow> error + 'a list" where
  "np_take a indices =
     (if list_all (\<lambda>i. i < length a) indices then Inr (map (\<lambda>i. a ! i) indices)
      else Inl IndexError)"

text \<open>
  The arguments are \<^verbatim>\<open>df_churn_pd.columns\<close> and the array
  \<^verbatim>\<open>rfModel.featureImportances.values\<close> of the fitted random forest, which holds the
  stored entries of the importance vector. The result is the bar lengths and the tick
  labels of the plot.
  \<^verbatim>\<open>
  features = df_churn_pd.columns
  importances = rfModel.featureImportances.values
  indices = np.argsort(importances)
  plt.barh(range(len(indices)), importances[indices], color='b', align='center')
  plt.yticks(range(len(indices)), (np.array(features))[indices])
  \<close>
\<close>

definition feature_importance_plot :: "string list \<Rightarrow> real list \<Rightarrow> error + real list \<times> string list" where
  "feature_importance_plot features importances =
     (let indices = argsort importances
      in bind_err (np_take importances indices) (\<lambda>bars.
         bind_err (np_take features indices) (\<lambda>ticks.
         Inr (bars, ticks))))"

text \<open>
  Cell 38 within the run. The importances are read from the random-forest stage of the
  model that cell 32 fitted on the training split; \<open>featureImportances\<close> stands for
  \<^verbatim>\<open>model.stages[-2].featureImportances.values\<close>. The test split is a variable of the
  notebook at this cell, and the cell does not read it.
  \<^verbatim>\<open>
  model = pipeline.fit(train)
  rfModel = model.stages[-2]
  importances = rfModel.featureImportances.values
  indices = np.argsort(importances)
  \<close>
\<close>

definition feature_ranking ::
  "('df \<Rightarrow> 'm) \<Rightarrow> ('m \<Rightarrow> real list) \<Rightarrow> 'df \<Rightarrow> 'df \<Rightarrow> nat list" where
  "feature_ranking fit featureImportances train test =
     (let fitted = fit train;
          importances = featureImportances fitted;
          indices = argsort importances
      in indices)"

section \<open>The CSV exports (cells 55 and 56)\<close>

text \<open>
  The Spark dataframe \<^verbatim>\<open>test\<close> with its column names and its rows; a row holds one
  cell for each column, in the order of the columns.
\<close>

record DataFrame =
  columns :: "string list"
  rows :: "cell list list"

definition rectangular :: "DataFrame \<Rightarrow> bool" where
  "rectangular df = list_all (\<lambda>r. length r = length (columns df)) (rows df)"

definition null_free :: "DataFrame \<Rightarrow> bool" where
  "null_free df = list_all (\<lambda>r. list_all (\<lambda>c. c \<noteq> NullC) r) (rows df)"

text \<open>
  The values of a pandas dataframe. pandas has no integer with a missing value: a column
  of integers in which a value is missing holds floats, and the missing value is NaN;
  in a column of objects the missing value is None.
\<close>

datatype pandas_value =
    PInt int | PFloat real | PNaN | PString string | PNone | PVector "real list"

record pandas_DataFrame =
  pd_columns :: "string list"
  pd_values :: "pandas_value list list"

fun is_IntC :: "cell \<Rightarrow> bool" where
  "is_IntC (IntC n) = True"
| "is_IntC c = False"

text \<open>
  \<^verbatim>\<open>test.toPandas()\<close> collects the rows under the same columns. The column at position
  \<open>j\<close> becomes a float column when it holds an integer and a null.
\<close>

definition float_column :: "DataFrame \<Rightarrow> nat \<Rightarrow> bool" where
  "float_column df j \<longleftrightarrow>
     list_ex (\<lambda>r. j < length r \<and> r ! j = NullC) (rows df) \<and>
     list_ex (\<lambda>r. j < length r \<and> is_IntC (r ! j)) (rows df)"

fun toPandas_value :: "bool \<Rightarrow> cell \<Rightarrow> pandas_value" where
  "toPandas_value as_float (IntC n) = (if as_float then PFloat (real_of_int n) else PInt n)"
| "toPandas_value as_float NullC = (if as_float then PNaN else PNone)"
| "toPandas_value as_float (StrC s) = PString s"
| "toPandas_value as_float (VecC x) = PVector x"

definition toPandas :: "DataFrame \<Rightarrow> pandas_DataFrame" where
  "toPandas df =
     \<lparr>pd_columns = columns df,
      pd_values = map (\<lambda>r. map (\<lambda>jc. toPandas_value (float_column df (fst jc)) (snd jc))
                              (enumerate 0 r))
                      (rows df)\<rparr>"

text \<open>
  \<^verbatim>\<open>df.drop(labels, axis=1)\<close>: the dataframe without the columns that have one of the
  labels; KeyError when a label is not a column.
\<close>

definition DataFrame_drop :: "string list \<Rightarrow> pandas_DataFrame \<Rightarrow> error + pandas_DataFrame" where
  "DataFrame_drop labels df =
     (if list_all (\<lambda>l. l \<in> set (pd_columns df)) labels
      then Inr \<lparr>pd_columns = [c \<leftarrow> pd_columns df. c \<notin> set labels],
                pd_values = map (\<lambda>r. map snd [cv \<leftarrow> zip (pd_columns df) r. fst cv \<notin> set labels])
                              (pd_values df)\<rparr>
      else Inl KeyError)"

text \<open>
  \<^verbatim>\<open>df.to_csv(path, sep=',', index=False)\<close> writes the header line and one line for each
  row, without the index. A file is represented by the table written to it.
\<close>

record csv_file =
  header :: "string list"
  records :: "pandas_value list list"

type_synonym files = "string \<rightharpoonup> csv_file"

definition to_csv :: "pandas_DataFrame \<Rightarrow> string \<Rightarrow> files \<Rightarrow> files" where
  "to_csv df path fs = fs(path \<mapsto> \<lparr>header = pd_columns df, records = pd_values df\<rparr>)"

text \<open>
  \<^verbatim>\<open>
  write_score_CSV=test.toPandas().drop(['CHURNRISK'], axis=1)
  write_score_CSV.to_csv('../datasets/TradingCustomerSparkMLBatchScore.csv', sep=',', index=False)
  \<close>
\<close>

definition cell_55 :: "DataFrame \<Rightarrow> files \<Rightarrow> error + files" where
  "cell_55 test fs =
     bind_err (DataFrame_drop [''CHURNRISK''] (toPandas test)) (\<lambda>write_score_CSV.
     Inr (to_csv write_score_CSV ''../datasets/TradingCustomerSparkMLBatchScore.csv'' fs))"

text \<open>
  \<^verbatim>\<open>
  write_eval_CSV=test.toPandas()
  write_eval_CSV.to_csv('../datasets/TradingCustomerSparkMLEval.csv', sep=',', index=False)
  \<close>
\<close>

definition cell_56 :: "DataFrame \<Rightarrow> files \<Rightarrow> error + files" where
  "cell_56 test fs =
     (let write_eval_CSV = toPandas test
      in Inr (to_csv write_eval_CSV ''../datasets/TradingCustomerSparkMLEval.csv'' fs))"

definition write_exports :: "DataFrame \<Rightarrow> files \<Rightarrow> error + files" where
  "write_exports test fs = bind_err (cell_55 test fs) (cell_56 test)"

section \<open>The scoring request (cells 45 to 52)\<close>

text \<open>The JSON values that \<^verbatim>\<open>json.dumps\<close> writes for the payload.\<close>

datatype json = JInt int | JString string | JList "json list" | JDict "(string \<times> json) list"

text \<open>
  \<^verbatim>\<open>
  values = [4,"F","M",2,52004,"N",60,5030,23,1257,125,3,1,1,1000,0]
  fields = ["ID", "GENDER", "STATUS","CHILDREN","ESTINCOME","HOMEOWNER","AGE",
            "TOTALDOLLARVALUETRADED","TOTALUNITSTRADED","LARGESTSINGLETRANSACTION",
            "SMALLESTSINGLETRANSACTION","PERCENTCHANGECALCULATION","DAYSSINCELASTLOGIN",
            "DAYSSINCELASTTRADE","NETREALIZEDGAINS_YTD","NETREALIZEDLOSSES_YTD"]
  scoring_payload = {"fields": fields, "values": [values]}
  \<close>
\<close>

definition "values" :: "json list" where
  "values = [JInt 4, JString ''F'', JString ''M'', JInt 2, JInt 52004, JString ''N'', JInt 60,
             JInt 5030, JInt 23, JInt 1257, JInt 125, JInt 3, JInt 1, JInt 1, JInt 1000, JInt 0]"

definition fields :: "string list" where
  "fields = [''ID'', ''GENDER'', ''STATUS'', ''CHILDREN'', ''ESTINCOME'', ''HOMEOWNER'', ''AGE'',
             ''TOTALDOLLARVALUETRADED'', ''TOTALUNITSTRADED'', ''LARGESTSINGLETRANSACTION'',
             ''SMALLESTSINGLETRANSACTION'', ''PERCENTCHANGECALCULATION'', ''DAYSSINCELASTLOGIN'',
             ''DAYSSINCELASTTRADE'', ''NETREALIZEDGAINS_YTD'', ''NETREALIZEDLOSSES_YTD'']"

definition scoring_payload :: json where
  "scoring_payload = JDict [(''fields'', JList (map JString fields)), (''values'', JList [JList values])]"

text \<open>
  The calls that cells 45 to 52 make on the client, in their order. The scoring endpoint
  is what \<^verbatim>\<open>client.deployments.get_scoring_url(created_deployment)\<close> returned.
\<close>

datatype client_call =
    repository_list_models
  | deployments_list
  | repository_store_model
  | repository_get_model_uid
  | deployments_create
  | deployments_get_uid
  | deployments_get_scoring_url
  | deployments_score string json

definition publisher_calls :: "string \<Rightarrow> client_call list" where
  "publisher_calls scoring_endpoint =
     [repository_list_models, deployments_list,
      repository_store_model,
      repository_list_models, repository_get_model_uid,
      deployments_create, deployments_list, deployments_get_uid,
      deployments_get_scoring_url,
      deployments_score scoring_endpoint scoring_payload]"

fun is_score :: "client_call \<Rightarrow> bool" where
  "is_score (deployments_score url payload) = True"
| "is_score c = False"

section \<open>Facts about the column lists\<close>

lemma bind_err_simps [simp]:
  "bind_err (Inl e) f = Inl e"
  "bind_err (Inr x) f = f x"
  by (simp_all add: bind_err_def)

lemma bind_err_eq_Inr:
  "bind_err r f = Inr y \<longleftrightarrow> (\<exists>x. r = Inr x \<and> f x = Inr y)"
  by (cases r) simp_all

lemma classVec_not_label:
  "''CHURNRISK'' \<notin> set (map (\<lambda>c. c @ ''classVec'') categoricalColumns)"
  by (simp add: categoricalColumns_def)

lemma label_not_categorical: "''CHURNRISK'' \<notin> set categoricalColumns"
  by (simp add: categoricalColumns_def)

lemma ID_not_categorical: "''ID'' \<notin> set categoricalColumns"
  by (simp add: categoricalColumns_def)

lemma label_in_all:
  "''CHURNRISK'' \<in> set (non_categoricalColumns_all cols) \<longleftrightarrow> ''CHURNRISK'' \<in> set cols"
  using label_not_categorical by (auto simp: non_categoricalColumns_all_def)

lemma count_label_all:
  "count_list (non_categoricalColumns_all cols) ''CHURNRISK'' = count_list cols ''CHURNRISK''"
  unfolding non_categoricalColumns_all_def using label_not_categorical
  by (induction cols) auto

lemma count_list_remove1:
  "x \<in> set xs \<Longrightarrow> count_list (remove1 x xs) x = count_list xs x - 1"
  by (induction xs) auto

lemma remove1_once_filter:
  "count_list xs x = 1 \<Longrightarrow> remove1 x xs = [y \<leftarrow> xs. y \<noteq> x]"
proof (induction xs)
  case Nil
  then show ?case by simp
next
  case (Cons a xs)
  show ?case
  proof (cases "a = x")
    case True
    with Cons.prems have "count_list xs x = 0" by simp
    then have "x \<notin> set xs" by (simp add: count_list_0_iff)
    then have "[y \<leftarrow> xs. y \<noteq> x] = xs" by (induction xs) auto
    with True show ?thesis by simp
  next
    case False
    with Cons show ?thesis by simp
  qed
qed

lemma non_categoricalColumns_Inr:
  "''CHURNRISK'' \<in> set cols \<Longrightarrow>
   non_categoricalColumns cols = Inr (remove1 ''CHURNRISK'' (non_categoricalColumns_all cols))"
  by (simp add: non_categoricalColumns_def list_remove_def label_in_all)

lemma non_categoricalColumns_Inl:
  "''CHURNRISK'' \<notin> set cols \<Longrightarrow> non_categoricalColumns cols = Inl ValueError"
  by (simp add: non_categoricalColumns_def list_remove_def label_in_all)

lemma length_non_categoricalColumns:
  "non_categoricalColumns cols = Inr ncc \<Longrightarrow>
   length ncc = length [c \<leftarrow> cols. c \<notin> set categoricalColumns] - 1"
  by (auto simp: non_categoricalColumns_def list_remove_def non_categoricalColumns_all_def
      length_remove1 split: if_splits)

lemma assemblerInputs_label_count:
  assumes "assemblerInputs cols = Inr ins"
  shows "count_list ins ''CHURNRISK'' = count_list cols ''CHURNRISK'' - 1"
proof -
  from assms obtain ncc where ncc: "non_categoricalColumns cols = Inr ncc"
    and ins: "ins = assemblerInputs_of ncc"
    by (auto simp: assemblerInputs_def bind_err_eq_Inr)
  from ncc have mem: "''CHURNRISK'' \<in> set (non_categoricalColumns_all cols)"
    and eq: "ncc = remove1 ''CHURNRISK'' (non_categoricalColumns_all cols)"
    by (auto simp: non_categoricalColumns_def list_remove_def split: if_splits)
  have "count_list ncc ''CHURNRISK'' = count_list cols ''CHURNRISK'' - 1"
    unfolding eq using count_list_remove1 [OF mem] by (simp add: count_label_all)
  moreover have "count_list ins ''CHURNRISK'' = count_list ncc ''CHURNRISK''"
    unfolding ins assemblerInputs_of_def categoricalColumns_def by simp
  ultimately show ?thesis by simp
qed

section \<open>Facts about the assembler\<close>

lemma set_remove1_other: "y \<noteq> x \<Longrightarrow> y \<in> set (remove1 x xs) \<longleftrightarrow> y \<in> set xs"
  by (induction xs) auto

lemma ID_in_non_categoricalColumns:
  "non_categoricalColumns cols = Inr ncc \<Longrightarrow> ''ID'' \<in> set ncc \<longleftrightarrow> ''ID'' \<in> set cols"
  using ID_not_categorical
  by (auto simp: non_categoricalColumns_def list_remove_def non_categoricalColumns_all_def
      set_remove1_other split: if_splits)

lemma non_categoricalColumns_subset:
  "non_categoricalColumns cols = Inr ncc \<Longrightarrow> set ncc \<subseteq> set cols"
proof -
  assume "non_categoricalColumns cols = Inr ncc"
  then have "ncc = remove1 ''CHURNRISK'' (non_categoricalColumns_all cols)"
    by (auto simp: non_categoricalColumns_def list_remove_def split: if_splits)
  then have "set ncc \<subseteq> set (non_categoricalColumns_all cols)"
    by (simp add: set_remove1_subset)
  also have "\<dots> \<subseteq> set cols"
    by (auto simp: non_categoricalColumns_all_def)
  finally show ?thesis .
qed

lemma VectorAssembler_transform_cong:
  "(\<And>c. c \<in> set ins \<Longrightarrow> r c = r' c) \<Longrightarrow>
   VectorAssembler_transform ins r = VectorAssembler_transform ins r'"
proof (induction ins)
  case Nil
  then show ?case by simp
next
  case (Cons a ins)
  have "r a = r' a" by (rule Cons.prems) simp
  moreover have "VectorAssembler_transform ins r = VectorAssembler_transform ins r'"
    by (rule Cons.IH) (simp add: Cons.prems)
  ultimately show ?case by (simp split: option.splits cell.splits)
qed

lemma VectorAssembler_transform_component:
  "VectorAssembler_transform ins r = Inr v \<Longrightarrow> c \<in> set ins \<Longrightarrow> r c = Some (IntC n) \<Longrightarrow>
   real_of_int n \<in> set v"
proof (induction ins arbitrary: v)
  case Nil
  then show ?case by simp
next
  case (Cons a ins)
  from Cons.prems(1) obtain w where w: "VectorAssembler_transform ins r = Inr w"
    by (auto simp: bind_err_eq_Inr split: option.splits cell.splits)
  show ?case
  proof (cases "a = c")
    case True
    with Cons.prems show ?thesis by (auto simp: bind_err_eq_Inr)
  next
    case False
    with Cons.prems have "c \<in> set ins" by simp
    from Cons.IH [OF w this Cons.prems(3)] have "real_of_int n \<in> set w" .
    with Cons.prems(1) w show ?thesis
      by (auto split: option.splits cell.splits)
  qed
qed

section \<open>Facts about name resolution and the casts\<close>

lemma same_name_refl [simp]: "same_name a a"
  by (simp add: same_name_def)

lemma resolve_Inr:
  "resolve df n = Inr f \<Longrightarrow> [g \<leftarrow> df. same_name (fst g) n] = [f]"
  by (auto simp: resolve_def split: if_splits list.splits)

lemma filter_singleton_mem:
  "filter P xs = [f] \<Longrightarrow> g \<in> set xs \<Longrightarrow> P g \<Longrightarrow> g = f"
proof -
  assume a: "filter P xs = [f]" and b: "g \<in> set xs" "P g"
  have "g \<in> set (filter P xs)" using b by simp
  then show "g = f" unfolding a by simp
qed

lemma withColumn_cast_Integer_exact:
  assumes "withColumn_cast_Integer n df = Inr df'" and "n \<in> set (map fst df)"
  shows "df' = map (\<lambda>f. if fst f = n then (n, IntegerType) else f) df"
proof -
  from assms(1) obtain f where f: "resolve df n = Inr f"
    and df': "df' = map (\<lambda>g. if same_name (fst g) n then (n, IntegerType) else g) df"
    by (auto simp: withColumn_cast_Integer_def bind_err_eq_Inr)
  from f have one: "[g \<leftarrow> df. same_name (fst g) n] = [f]" by (rule resolve_Inr)
  from assms(2) obtain h where h: "h \<in> set df" "fst h = n" by auto
  with one have hf: "h = f" by (auto intro: filter_singleton_mem)
  have "same_name (fst g) n \<longleftrightarrow> fst g = n" if "g \<in> set df" for g
  proof
    assume "same_name (fst g) n"
    with one that have "g = f" by (rule filter_singleton_mem)
    with hf h show "fst g = n" by simp
  next
    assume "fst g = n"
    then show "same_name (fst g) n" by simp
  qed
  then show ?thesis unfolding df' by (intro map_cong) auto
qed

lemma cast_columns_Inr:
  "cast_columns cs df = Inr df' \<Longrightarrow> set cs \<subseteq> set (map fst df) \<Longrightarrow>
   df' = map (\<lambda>f. if fst f \<in> set cs then (fst f, IntegerType) else f) df"
proof (induction cs arbitrary: df)
  case Nil
  then show ?case by simp
next
  case (Cons a cs)
  from Cons.prems(1) obtain d where d: "withColumn_cast_Integer a df = Inr d"
    and r: "cast_columns cs d = Inr df'"
    by (auto simp: bind_err_eq_Inr)
  from Cons.prems(2) have a: "a \<in> set (map fst df)" by simp
  have dd: "d = map (\<lambda>f. if fst f = a then (a, IntegerType) else f) df"
    using d a by (rule withColumn_cast_Integer_exact)
  then have names: "map fst d = map fst df" by (auto intro: map_idI simp: comp_def) 
  with Cons.prems(2) have "set cs \<subseteq> set (map fst d)" by simp
  from Cons.IH [OF r this]
  have "df' = map (\<lambda>f. if fst f \<in> set cs then (fst f, IntegerType) else f) d" .
  then show ?case unfolding dd by (auto simp: comp_def)
qed

lemma count_list_map_fst:
  "count_list (map fst df) n = length [g \<leftarrow> df. fst g = n]"
  by (induction df) auto

lemma length_filter_mono:
  "(\<And>x. x \<in> set xs \<Longrightarrow> P x \<Longrightarrow> Q x) \<Longrightarrow> length (filter P xs) \<le> length (filter Q xs)"
  by (induction xs) auto

lemma resolve_count:
  assumes "resolve df n = Inr f"
  shows "count_list (map fst df) n \<le> 1"
proof -
  have "length [g \<leftarrow> df. fst g = n] \<le> length [g \<leftarrow> df. same_name (fst g) n]"
    by (rule length_filter_mono) simp
  also have "\<dots> = 1" using resolve_Inr [OF assms] by simp
  finally show ?thesis by (simp add: count_list_map_fst)
qed

lemma prepare_data_Inr:
  assumes "prepare_data flds = Inr p"
  shows "non_categoricalColumns (map fst flds) = Inr (p_non_categoricalColumns p)"
    and "p_assemblerInputs p = assemblerInputs_of (p_non_categoricalColumns p)"
    and "cast_columns (p_non_categoricalColumns p) flds = Inr (p_spark_df_churn p)"
    and "count_list (map fst flds) ''CHURNRISK'' = 1"
proof -
  from assms obtain ncc df cdf where ncc: "non_categoricalColumns (map fst flds) = Inr ncc"
    and c25: "cell_25 flds = Inr df" and cast: "cast_columns ncc df = Inr cdf"
    and p: "p = \<lparr>p_non_categoricalColumns = ncc, p_spark_df_churn = cdf,
          p_assemblerInputs = assemblerInputs_of ncc\<rparr>"
    by (auto simp: prepare_data_def bind_err_eq_Inr)
  from c25 obtain f where df: "df = flds" and f: "resolve flds ''CHURNRISK'' = Inr f"
    by (auto simp: cell_25_def createDataFrame_def bind_err_eq_Inr split: if_splits)
  show "non_categoricalColumns (map fst flds) = Inr (p_non_categoricalColumns p)"
    using ncc p by simp
  show "p_assemblerInputs p = assemblerInputs_of (p_non_categoricalColumns p)"
    using p by simp
  show "cast_columns (p_non_categoricalColumns p) flds = Inr (p_spark_df_churn p)"
    using cast p df by simp
  from ncc have "''CHURNRISK'' \<in> set (map fst flds)"
    by (auto simp: non_categoricalColumns_def list_remove_def label_in_all split: if_splits)
  then have "count_list (map fst flds) ''CHURNRISK'' \<noteq> 0"
    by (simp add: count_list_0_iff)
  with resolve_count [OF f] show "count_list (map fst flds) ''CHURNRISK'' = 1" by simp
qed


lemma filter_distinct_key:
  "distinct (map h xs) \<Longrightarrow> x \<in> set xs \<Longrightarrow> [y \<leftarrow> xs. h y = h x] = [x]"
proof (induction xs)
  case Nil
  then show ?case by simp
next
  case (Cons a xs)
  show ?case
  proof (cases "a = x")
    case True
    from Cons.prems(1) have "h x \<notin> h ` set xs" using True by simp
    then have "[y \<leftarrow> xs. h y = h x] = []"
      by (simp add: filter_empty_conv) (metis imageI)
    with True show ?thesis by simp
  next
    case False
    with Cons.prems have x: "x \<in> set xs" by simp
    with Cons.prems(1) have "h a \<noteq> h x" by auto
    with Cons.IH [OF _ x] Cons.prems(1) show ?thesis by simp
  qed
qed

lemma resolve_ok:
  assumes "x \<in> set df" and "plain_name (fst x)"
    and "distinct (map (map lower_char) (map fst df))"
  shows "resolve df (fst x) = Inr x"
proof -
  have "distinct (map (\<lambda>f. map lower_char (fst f)) df)"
    using assms(3) by (simp add: comp_def)
  from filter_distinct_key [OF this assms(1)]
  have "[g \<leftarrow> df. same_name (fst g) (fst x)] = [x]"
    by (simp add: same_name_def)
  with assms(2) show ?thesis by (simp add: resolve_def)
qed

lemma cast_columns_ok:
  "set cs \<subseteq> set (map fst df) \<Longrightarrow> list_all plain_name cs \<Longrightarrow>
   distinct (map (map lower_char) (map fst df)) \<Longrightarrow> \<exists>df'. cast_columns cs df = Inr df'"
proof (induction cs arbitrary: df)
  case Nil
  then show ?case by simp
next
  case (Cons a cs)
  from Cons.prems(1) obtain x where x: "x \<in> set df" "fst x = a" by auto
  from Cons.prems(2) x have "plain_name (fst x)" by simp
  from resolve_ok [OF x(1) this Cons.prems(3)] x(2)
  obtain d where d: "withColumn_cast_Integer a df = Inr d"
    by (simp add: withColumn_cast_Integer_def)
  from Cons.prems(1) have "a \<in> set (map fst df)" by simp
  from withColumn_cast_Integer_exact [OF d this]
  have names: "map fst d = map fst df" by (auto simp: comp_def)
  from Cons.prems have "set cs \<subseteq> set (map fst d)" "list_all plain_name cs"
    "distinct (map (map lower_char) (map fst d))"
    by (simp_all add: names)
  from Cons.IH [OF this] obtain df' where "cast_columns cs d = Inr df'" by blast
  with d show ?case by simp
qed

lemma plain_label: "plain_name ''CHURNRISK''"
  by (simp add: plain_name_def)

lemma prepare_data_ok:
  assumes "''CHURNRISK'' \<in> set (map fst flds)" and "''label'' \<notin> set (map fst flds)"
    and "list_all plain_name (map fst flds)"
    and "distinct (map (map lower_char) (map fst flds))"
  shows "\<exists>p. prepare_data flds = Inr p"
proof -
  from assms(1) obtain ncc where ncc: "non_categoricalColumns (map fst flds) = Inr ncc"
    using non_categoricalColumns_Inr by blast
  from assms(1) obtain x where x: "x \<in> set flds" "fst x = ''CHURNRISK''" by auto
  from resolve_ok [of x flds] x plain_label assms(4)
  have "resolve flds ''CHURNRISK'' = Inr x" by simp
  with assms(2) have c25: "cell_25 flds = Inr flds"
    by (simp add: cell_25_def createDataFrame_def)
  have sub: "set ncc \<subseteq> set (map fst flds)"
    using ncc by (rule non_categoricalColumns_subset)
  with assms(3) have "list_all plain_name ncc"
    by (auto simp: list_all_iff)
  from cast_columns_ok [OF sub this assms(4)] obtain df' where
    "cast_columns ncc flds = Inr df'" by blast
  with ncc c25 show ?thesis by (simp add: prepare_data_def)
qed

lemma prepare_data_duplicate_label:
  assumes "1 < count_list (map fst flds) ''CHURNRISK''"
  shows "\<exists>e. prepare_data flds = Inl e"
proof (cases "prepare_data flds")
  case (Inl e)
  then show ?thesis by blast
next
  case (Inr p)
  from prepare_data_Inr(4) [OF this] assms show ?thesis by simp
qed


lemma prepare_data_sample:
  "prepare_data [(''ID'', LongType), (''GENDER'', StringType),
                 (''AGE'', LongType), (''CHURNRISK'', StringType)] =
     Inr \<lparr>p_non_categoricalColumns = [''ID'', ''AGE''],
          p_spark_df_churn = [(''ID'', IntegerType), (''GENDER'', StringType),
                              (''AGE'', IntegerType), (''CHURNRISK'', StringType)],
          p_assemblerInputs = [''GENDERclassVec'', ''STATUSclassVec'', ''HOMEOWNERclassVec'',
                               ''ID'', ''AGE'']\<rparr>"
  by code_simp

lemma prepare_data_dup:
  "prepare_data [(''ID'', LongType), (''GENDER'', StringType), (''AGE'', LongType),
                 (''CHURNRISK'', StringType), (''CHURNRISK'', StringType)] = Inl AnalysisException"
  by code_simp

lemma prepare_data_dot:
  "prepare_data [(''ID'', LongType), (''A.B'', LongType), (''CHURNRISK'', StringType)] = Inl AnalysisException"
  by code_simp

lemma prepare_data_case:
  "prepare_data [(''ID'', LongType), (''id'', LongType), (''CHURNRISK'', StringType)] = Inl AnalysisException"
  by code_simp

lemma prepare_data_nolabel:
  "prepare_data [(''ID'', LongType), (''GENDER'', StringType), (''AGE'', LongType)] = Inl ValueError"
  by code_simp

section \<open>The label and the feature set\<close>

text \<open>
  C1: for every input dataframe containing a CHURNRISK column, the assembler's input
  column list (the three classVec columns and the remaining non-categorical columns)
  never contains CHURNRISK, so no component of the assembled vector is derived from the
  label. Whenever the run reaches cell 27, the inputs are the three classVec columns
  followed by the columns that are neither categorical nor CHURNRISK, CHURNRISK is not
  among them, and the vector assembled from a row does not change with the row's
  CHURNRISK cell. \<^verbatim>\<open>list.remove\<close> alone deletes one occurrence only (lemma
  \<open>assemblerInputs_label_count\<close>); a dataframe with two CHURNRISK columns does not
  reach the assembler, because the label indexer of cell 25 cannot resolve the ambiguous
  name. On a dataframe whose names are plain and distinct without regard to case, and
  which has no column called label, the run does reach cell 27.
\<close>

theorem assemblerInputs_exclude_label:
  assumes "''CHURNRISK'' \<in> set (map fst flds)"
  shows "(\<forall>p. prepare_data flds = Inr p \<longrightarrow>
            ''CHURNRISK'' \<notin> set (p_assemblerInputs p) \<and>
            assemblerInputs (map fst flds) = Inr (p_assemblerInputs p) \<and>
            p_assemblerInputs p =
              map (\<lambda>c. c @ ''classVec'') categoricalColumns @
              [c \<leftarrow> map fst flds. c \<notin> set categoricalColumns \<and> c \<noteq> ''CHURNRISK''] \<and>
            (\<forall>r x. VectorAssembler_transform (p_assemblerInputs p) (r(''CHURNRISK'' := x)) =
                   VectorAssembler_transform (p_assemblerInputs p) r)) \<and>
         (1 < count_list (map fst flds) ''CHURNRISK'' \<longrightarrow> (\<exists>e. prepare_data flds = Inl e)) \<and>
         (''label'' \<notin> set (map fst flds) \<and> list_all plain_name (map fst flds) \<and>
          distinct (map (map lower_char) (map fst flds)) \<longrightarrow>
            (\<exists>p. prepare_data flds = Inr p))"
proof (intro conjI allI impI)
  fix p
  assume p: "prepare_data flds = Inr p"
  let ?cols = "map fst flds"
  let ?all = "non_categoricalColumns_all ?cols"
  let ?ins = "map (\<lambda>c. c @ ''classVec'') categoricalColumns @
                 [c \<leftarrow> ?cols. c \<notin> set categoricalColumns \<and> c \<noteq> ''CHURNRISK'']"
  note facts = prepare_data_Inr [OF p]
  from facts(4) have once: "count_list ?all ''CHURNRISK'' = 1"
    by (simp add: count_label_all)
  have "remove1 ''CHURNRISK'' ?all = [c \<leftarrow> ?all. c \<noteq> ''CHURNRISK'']"
    using once by (rule remove1_once_filter)
  also have "\<dots> = [c \<leftarrow> ?cols. c \<notin> set categoricalColumns \<and> c \<noteq> ''CHURNRISK'']"
    by (simp add: non_categoricalColumns_all_def conj_commute)
  finally have "non_categoricalColumns ?cols =
      Inr [c \<leftarrow> ?cols. c \<notin> set categoricalColumns \<and> c \<noteq> ''CHURNRISK'']"
    using assms by (simp add: non_categoricalColumns_Inr)
  with facts(1) have ncc: "p_non_categoricalColumns p =
      [c \<leftarrow> ?cols. c \<notin> set categoricalColumns \<and> c \<noteq> ''CHURNRISK'']" by simp
  show eq: "p_assemblerInputs p = ?ins"
    using facts(2) ncc by (simp add: assemblerInputs_of_def)
  show "assemblerInputs ?cols = Inr (p_assemblerInputs p)"
    using facts(1,2) by (simp add: assemblerInputs_def)
  show notin: "''CHURNRISK'' \<notin> set (p_assemblerInputs p)"
    unfolding eq using classVec_not_label by auto
  show "VectorAssembler_transform (p_assemblerInputs p) (r(''CHURNRISK'' := x)) =
        VectorAssembler_transform (p_assemblerInputs p) r" for r x
    by (rule VectorAssembler_transform_cong) (use notin in auto)
next
  assume "1 < count_list (map fst flds) ''CHURNRISK''"
  then show "\<exists>e. prepare_data flds = Inl e" by (rule prepare_data_duplicate_label)
next
  assume "''label'' \<notin> set (map fst flds) \<and> list_all plain_name (map fst flds) \<and>
          distinct (map (map lower_char) (map fst flds))"
  with assms show "\<exists>p. prepare_data flds = Inr p" by (blast intro: prepare_data_ok)
qed

theorem assemblerInputs_exclude_label_witness:
  "''CHURNRISK'' \<in> set (map fst [(''ID'', LongType), (''GENDER'', StringType),
                                   (''AGE'', LongType), (''CHURNRISK'', StringType)]) \<and>
   (\<exists>p. prepare_data [(''ID'', LongType), (''GENDER'', StringType),
                       (''AGE'', LongType), (''CHURNRISK'', StringType)] = Inr p \<and>
        p_assemblerInputs p =
          [''GENDERclassVec'', ''STATUSclassVec'', ''HOMEOWNERclassVec'', ''ID'', ''AGE''] \<and>
        ''CHURNRISK'' \<notin> set (p_assemblerInputs p)) \<and>
   1 < count_list (map fst [(''ID'', LongType), (''CHURNRISK'', StringType),
                            (''CHURNRISK'', StringType)]) ''CHURNRISK'' \<and>
   (\<exists>e. prepare_data [(''ID'', LongType), (''CHURNRISK'', StringType),
                       (''CHURNRISK'', StringType)] = Inl e)"
proof -
  let ?F = "[(''ID'', LongType), (''GENDER'', StringType),
             (''AGE'', LongType), (''CHURNRISK'', StringType)]"
  let ?D = "[(''ID'', LongType), (''CHURNRISK'', StringType), (''CHURNRISK'', StringType)]"
  have h: "''CHURNRISK'' \<in> set (map fst ?F)" by simp
  have hd: "''CHURNRISK'' \<in> set (map fst ?D)" by simp
  have d: "1 < count_list (map fst ?D) ''CHURNRISK''" by simp
  from assemblerInputs_exclude_label [OF hd] d
  have e: "\<exists>e. prepare_data ?D = Inl e" by blast
  let ?P = "\<lparr>p_non_categoricalColumns = [''ID'', ''AGE''],
          p_spark_df_churn = [(''ID'', IntegerType), (''GENDER'', StringType),
                              (''AGE'', IntegerType), (''CHURNRISK'', StringType)],
          p_assemblerInputs = [''GENDERclassVec'', ''STATUSclassVec'', ''HOMEOWNERclassVec'',
                               ''ID'', ''AGE'']\<rparr>"
  have run: "prepare_data ?F = Inr ?P" by (rule prepare_data_sample)
  from assemblerInputs_exclude_label [OF h]
  have "\<forall>p. prepare_data ?F = Inr p \<longrightarrow> ''CHURNRISK'' \<notin> set (p_assemblerInputs p)"
    by blast
  with run have "''CHURNRISK'' \<notin> set (p_assemblerInputs ?P)" by blast
  with run have "\<exists>p. prepare_data ?F = Inr p \<and>
        p_assemblerInputs p =
          [''GENDERclassVec'', ''STATUSclassVec'', ''HOMEOWNERclassVec'', ''ID'', ''AGE''] \<and>
        ''CHURNRISK'' \<notin> set (p_assemblerInputs p)"
    by (intro exI [of _ ?P]) simp
  with h d e show ?thesis by blast
qed

section \<open>The customer ID as a feature\<close>

text \<open>
  C9, as stated: for every input dataframe containing an ID column, ID is cast to integer
  and is among the assembler's inputs. A dataframe with an ID column and no CHURNRISK
  column is such an input, and on it cell 22 raises ValueError: nothing is cast and no
  assembler is built.
\<close>

theorem ID_not_feature_without_label:
  "''ID'' \<in> set (map fst [(''ID'', LongType), (''GENDER'', StringType), (''AGE'', LongType)]) \<and>
   prepare_data [(''ID'', LongType), (''GENDER'', StringType), (''AGE'', LongType)] =
     Inl ValueError"
  using prepare_data_nolabel by simp

text \<open>
  C9, amended: for every input dataframe containing an ID column on which the preparation
  cells (20 to 27) run without raising, ID is in \<^verbatim>\<open>non_categoricalColumns\<close>, every field
  named ID of the cast dataframe has type IntegerType, ID is an input of the assembler,
  and the ID of a row is a component of the vector assembled from it. The cells run
  without raising when the dataframe has a CHURNRISK column, no column called label, and
  plain names that are distinct without regard to case; without a CHURNRISK column cell
  22 raises ValueError.
\<close>

theorem ID_is_feature:
  assumes "''ID'' \<in> set (map fst flds)"
  shows "(\<forall>p. prepare_data flds = Inr p \<longrightarrow>
            ''ID'' \<in> set (p_non_categoricalColumns p) \<and>
            ''ID'' \<in> set (map fst (p_spark_df_churn p)) \<and>
            (\<forall>f \<in> set (p_spark_df_churn p). fst f = ''ID'' \<longrightarrow> snd f = IntegerType) \<and>
            ''ID'' \<in> set (p_assemblerInputs p) \<and>
            assemblerInputs (map fst flds) = Inr (p_assemblerInputs p) \<and>
            (\<forall>r v n. VectorAssembler_transform (p_assemblerInputs p) r = Inr v \<and>
                 r ''ID'' = Some (IntC n) \<longrightarrow> real_of_int n \<in> set v)) \<and>
         (''CHURNRISK'' \<in> set (map fst flds) \<and> ''label'' \<notin> set (map fst flds) \<and>
          list_all plain_name (map fst flds) \<and>
          distinct (map (map lower_char) (map fst flds)) \<longrightarrow>
            (\<exists>p. prepare_data flds = Inr p)) \<and>
         (''CHURNRISK'' \<notin> set (map fst flds) \<longrightarrow> prepare_data flds = Inl ValueError)"
proof (intro conjI allI impI ballI)
  assume "''CHURNRISK'' \<notin> set (map fst flds)"
  then show "prepare_data flds = Inl ValueError"
    by (simp add: prepare_data_def non_categoricalColumns_Inl)
next
  assume "''CHURNRISK'' \<in> set (map fst flds) \<and> ''label'' \<notin> set (map fst flds) \<and>
          list_all plain_name (map fst flds) \<and>
          distinct (map (map lower_char) (map fst flds))"
  then show "\<exists>p. prepare_data flds = Inr p" by (blast intro: prepare_data_ok)
next
  fix p
  assume p: "prepare_data flds = Inr p"
  note facts = prepare_data_Inr [OF p]
  show ID: "''ID'' \<in> set (p_non_categoricalColumns p)"
    using ID_in_non_categoricalColumns [OF facts(1)] assms by simp
  have sub: "set (p_non_categoricalColumns p) \<subseteq> set (map fst flds)"
    using facts(1) by (rule non_categoricalColumns_subset)
  note df = cast_columns_Inr [OF facts(3) sub]
  have "map fst (p_spark_df_churn p) = map fst flds"
    by (subst df) (simp add: comp_def)
  with assms show "''ID'' \<in> set (map fst (p_spark_df_churn p))" by simp
  show inp: "''ID'' \<in> set (p_assemblerInputs p)"
    using ID facts(2) by (simp add: assemblerInputs_of_def)
  show "assemblerInputs (map fst flds) = Inr (p_assemblerInputs p)"
    using facts(1,2) by (simp add: assemblerInputs_def)
  show "snd f = IntegerType" if "f \<in> set (p_spark_df_churn p)" "fst f = ''ID''" for f
    using that ID by (subst (asm) df) auto
  show "real_of_int n \<in> set v"
    if "VectorAssembler_transform (p_assemblerInputs p) r = Inr v \<and> r ''ID'' = Some (IntC n)"
    for r v n
    using that inp by (blast intro: VectorAssembler_transform_component)
qed

theorem ID_is_feature_witness:
  "''ID'' \<in> set (map fst [(''ID'', LongType), (''GENDER'', StringType),
                            (''AGE'', LongType), (''CHURNRISK'', StringType)]) \<and>
   (\<exists>p. prepare_data [(''ID'', LongType), (''GENDER'', StringType),
                       (''AGE'', LongType), (''CHURNRISK'', StringType)] = Inr p \<and>
        p_spark_df_churn p = [(''ID'', IntegerType), (''GENDER'', StringType),
                              (''AGE'', IntegerType), (''CHURNRISK'', StringType)] \<and>
        ''ID'' \<in> set (p_non_categoricalColumns p) \<and>
        ''ID'' \<in> set (p_assemblerInputs p))"
proof -
  let ?F = "[(''ID'', LongType), (''GENDER'', StringType),
             (''AGE'', LongType), (''CHURNRISK'', StringType)]"
  have h: "''ID'' \<in> set (map fst ?F)" by simp
  from ID_is_feature [OF h] prepare_data_sample h show ?thesis by simp
qed

section \<open>The stage list shared by the two pipelines\<close>

lemma cell_24_heap:
  "cell_24 =
     Inr \<lparr>heap = [0 \<mapsto> [StringIndexer ''GENDER'' ''GENDERIndex'',
                          OneHotEncoder ''GENDERIndex'' ''GENDERclassVec'',
                          StringIndexer ''STATUS'' ''STATUSIndex'',
                          OneHotEncoder ''STATUSIndex'' ''STATUSclassVec'',
                          StringIndexer ''HOMEOWNER'' ''HOMEOWNERIndex'',
                          OneHotEncoder ''HOMEOWNERIndex'' ''HOMEOWNERclassVec'']],
          stages = 0, pipeline = None, model = None, stages_nb = None,
          pipeline_nb = None, model_nb = None, published_model = None\<rparr>"
  by (simp add: cell_24_def categoricalColumns_def list_iadd_def)

text \<open>
  C3: the stages of the random-forest pipeline are not changed by the construction of the
  naive-Bayes pipeline, and the pipeline passed to \<^verbatim>\<open>store_model\<close> has the random-forest
  classifier as its classifier stage. The run of the cells shows what the code does
  instead. After the fit (cell 32) the pipeline's stage list has the random-forest
  classifier last but one. Cell 41 writes the naive-Bayes classifier into the same list
  object, so at cell 46 the pipeline's classifier stage is the naive-Bayes classifier,
  while the fitted model, which has its own stage list, keeps the random-forest model.
\<close>

theorem store_model_pipeline_classifier:
  "\<exists>nb0 nb1 p xs0 m xs1.
     run_to_fit labels ins labels_of = Inr nb0 \<and>
     pipeline nb0 = Some p \<and> heap nb0 (getStages p) = Some xs0 \<and>
     classifier_stage xs0 = Inr (RandomForestClassifier ''label'' ''features'') \<and>
     run_to_store labels ins labels_of = Inr nb1 \<and>
     pipeline nb1 = Some p \<and>
     published_model nb1 = Some (m, xs1) \<and>
     model nb1 = model nb0 \<and> model nb1 = Some m \<and>
     classifier_stage m = Inr (RandomForestClassificationModel ''label'' ''features'') \<and>
     classifier_stage xs1 = Inr (NaiveBayes ''label'' ''features'') \<and>
     xs1 = xs0[8 := NaiveBayes ''label'' ''features'']"
  by (simp add: run_to_store_def run_to_fit_def cell_24_heap cell_30_def cell_32_def
      cell_41_def cell_46_def list_iadd_def list_setitem_def list_getitem_def
      py_index_def Pipeline_fit_def classifier_stage_def)

section \<open>The length of the feature vector\<close>

lemma VectorAssembler_transform_append:
  "VectorAssembler_transform (xs @ ys) r =
     bind_err (VectorAssembler_transform xs r) (\<lambda>a.
     bind_err (VectorAssembler_transform ys r) (\<lambda>b. Inr (a @ b)))"
proof (induction xs)
  case Nil
  show ?case by (cases "VectorAssembler_transform ys r") simp_all
next
  case (Cons x xs)
  show ?case
  proof (cases "VectorAssembler_transform xs r")
    case (Inl e)
    with Cons show ?thesis by (simp split: option.splits cell.splits)
  next
    case (Inr a)
    with Cons show ?thesis
      by (cases "VectorAssembler_transform ys r") (simp_all split: option.splits cell.splits)
  qed
qed

lemma VectorAssembler_transform_numeric:
  "list_all (\<lambda>c. \<exists>n. r c = Some (IntC n)) cs \<Longrightarrow>
   VectorAssembler_transform cs r = Inr (map (numeric_value r) cs)"
  by (induction cs) (auto simp: numeric_value_def)

text \<open>
  C2: for every row, the length of the assembled feature vector is the sum of the widths
  of the three one-hot vectors (GENDER, STATUS, HOMEOWNER) plus the number of numeric
  (non-categorical, non-label) columns, the assembler concatenating exactly those inputs
  in order. The row is one that reaches the assembler: its three classVec columns hold
  the one-hot vectors and, after the casts of cell 26, every column of
  \<^verbatim>\<open>non_categoricalColumns\<close> holds an integer. The number of numeric columns is the number
  of non-categorical columns of the dataframe less the removed label.
\<close>

theorem feature_vector_length:
  assumes "non_categoricalColumns cols = Inr ncc"
    and "r ''GENDERclassVec'' = Some (VecC g)"
    and "r ''STATUSclassVec'' = Some (VecC s)"
    and "r ''HOMEOWNERclassVec'' = Some (VecC h)"
    and "list_all (\<lambda>c. \<exists>n. r c = Some (IntC n)) ncc"
  shows "\<exists>ins v. assemblerInputs cols = Inr ins \<and>
           VectorAssembler_transform ins r = Inr v \<and>
           v = g @ s @ h @ map (numeric_value r) ncc \<and>
           length v = length g + length s + length h + length ncc \<and>
           length v = width r ''GENDERclassVec'' + width r ''STATUSclassVec'' +
                      width r ''HOMEOWNERclassVec'' +
                      (length [c \<leftarrow> cols. c \<notin> set categoricalColumns] - 1)"
proof -
  have ins: "assemblerInputs cols = Inr (assemblerInputs_of ncc)"
    using assms(1) by (simp add: assemblerInputs_def)
  have num: "VectorAssembler_transform ncc r = Inr (map (numeric_value r) ncc)"
    using assms(5) by (rule VectorAssembler_transform_numeric)
  have v: "VectorAssembler_transform (assemblerInputs_of ncc) r =
        Inr (g @ s @ h @ map (numeric_value r) ncc)"
    unfolding assemblerInputs_of_def categoricalColumns_def
    by (simp add: VectorAssembler_transform_append assms(2-4) num)
  have n: "length ncc = length [c \<leftarrow> cols. c \<notin> set categoricalColumns] - 1"
    using assms(1) by (rule length_non_categoricalColumns)
  show ?thesis
    using ins v n by (simp add: width_def assms(2-4))
qed

theorem feature_vector_length_witness:
  "non_categoricalColumns [''ID'', ''GENDER'', ''AGE'', ''CHURNRISK''] = Inr [''ID'', ''AGE''] \<and>
   (\<exists>v. VectorAssembler_transform
           [''GENDERclassVec'', ''STATUSclassVec'', ''HOMEOWNERclassVec'', ''ID'', ''AGE'']
           [''GENDERclassVec'' \<mapsto> VecC [1], ''STATUSclassVec'' \<mapsto> VecC [0, 1],
            ''HOMEOWNERclassVec'' \<mapsto> VecC [0], ''ID'' \<mapsto> IntC 4, ''AGE'' \<mapsto> IntC 60] = Inr v \<and>
        v = [1, 0, 1, 0, 4, 60] \<and> length v = 1 + 2 + 1 + 2)"
proof -
  let ?r = "[''GENDERclassVec'' \<mapsto> VecC [1], ''STATUSclassVec'' \<mapsto> VecC [0, 1],
            ''HOMEOWNERclassVec'' \<mapsto> VecC [0], ''ID'' \<mapsto> IntC 4, ''AGE'' \<mapsto> IntC 60]"
  have h1: "non_categoricalColumns [''ID'', ''GENDER'', ''AGE'', ''CHURNRISK''] =
      Inr [''ID'', ''AGE'']"
    by (simp add: non_categoricalColumns_def list_remove_def non_categoricalColumns_all_def
        categoricalColumns_def)
  have h2: "?r ''GENDERclassVec'' = Some (VecC [1])" by simp
  have h3: "?r ''STATUSclassVec'' = Some (VecC [0, 1])" by simp
  have h4: "?r ''HOMEOWNERclassVec'' = Some (VecC [0])" by simp
  have h5: "list_all (\<lambda>c. \<exists>n. ?r c = Some (IntC n)) [''ID'', ''AGE'']" by simp
  have i: "assemblerInputs [''ID'', ''GENDER'', ''AGE'', ''CHURNRISK''] =
      Inr [''GENDERclassVec'', ''STATUSclassVec'', ''HOMEOWNERclassVec'', ''ID'', ''AGE'']"
    by (simp add: assemblerInputs_def h1 assemblerInputs_of_def categoricalColumns_def)
  from feature_vector_length [OF h1 h2 h3 h4 h5] h1 show ?thesis
    unfolding i by (auto simp: numeric_value_def)
qed

section \<open>The accuracy and the order of the rows\<close>

lemma length_filter_mset: "length (filter P xs) = size (filter_mset P (mset xs))"
  by (metis mset_filter size_mset)

text \<open>
  C4: the accuracy that the evaluator reports does not depend on the order of the rows.
  Two enumerations of the same results dataset are two lists with the same multiset of
  rows; on both, cell 35 gives the same value, or raises ZeroDivisionError on both when
  the dataset is empty. This holds for whatever the float division of the two counts
  returns, since the counts themselves are equal.
\<close>

theorem Model_Precision_permutation:
  assumes "mset results' = mset results"
  shows "Model_Precision fdiv results' = Model_Precision fdiv results"
proof -
  have "length results' = length results"
    using assms by (rule mset_eq_length)
  moreover have "length [r \<leftarrow> results'. label r = prediction r] =
                 length [r \<leftarrow> results. label r = prediction r]"
    by (simp add: length_filter_mset assms)
  ultimately show ?thesis
    by (simp add: Model_Precision_def)
qed

theorem Model_Precision_permutation_witness:
  "mset [\<lparr>ID = 3, CHURNRISK = ''Low'', label = 1, predictedLabel = ''Low'', prediction = 1,
           probability = [0.1, 0.9]\<rparr>,
         \<lparr>ID = 1, CHURNRISK = ''High'', label = 0, predictedLabel = ''High'', prediction = 0,
           probability = [0.8, 0.2]\<rparr>,
         \<lparr>ID = 2, CHURNRISK = ''High'', label = 0, predictedLabel = ''Low'', prediction = 1,
           probability = [0.4, 0.6]\<rparr>] =
   mset [\<lparr>ID = 1, CHURNRISK = ''High'', label = 0, predictedLabel = ''High'', prediction = 0,
           probability = [0.8, 0.2]\<rparr>,
         \<lparr>ID = 2, CHURNRISK = ''High'', label = 0, predictedLabel = ''Low'', prediction = 1,
           probability = [0.4, 0.6]\<rparr>,
         \<lparr>ID = 3, CHURNRISK = ''Low'', label = 1, predictedLabel = ''Low'', prediction = 1,
           probability = [0.1, 0.9]\<rparr>] \<and>
   Model_Precision (\<lambda>a b. (a, b))
        [\<lparr>ID = 3, CHURNRISK = ''Low'', label = 1, predictedLabel = ''Low'', prediction = 1,
           probability = [0.1, 0.9]\<rparr>,
         \<lparr>ID = 1, CHURNRISK = ''High'', label = 0, predictedLabel = ''High'', prediction = 0,
           probability = [0.8, 0.2]\<rparr>,
         \<lparr>ID = 2, CHURNRISK = ''High'', label = 0, predictedLabel = ''Low'', prediction = 1,
           probability = [0.4, 0.6]\<rparr>] = Inr (2, 3) \<and>
   Model_Precision (\<lambda>a b. (a, b))
        [\<lparr>ID = 1, CHURNRISK = ''High'', label = 0, predictedLabel = ''High'', prediction = 0,
           probability = [0.8, 0.2]\<rparr>,
         \<lparr>ID = 2, CHURNRISK = ''High'', label = 0, predictedLabel = ''Low'', prediction = 1,
           probability = [0.4, 0.6]\<rparr>,
         \<lparr>ID = 3, CHURNRISK = ''Low'', label = 1, predictedLabel = ''Low'', prediction = 1,
           probability = [0.1, 0.9]\<rparr>] = Inr (2, 3)"
proof -
  let ?a = "\<lparr>ID = 1, CHURNRISK = ''High'', label = 0, predictedLabel = ''High'', prediction = 0,
           probability = [0.8, 0.2]\<rparr>"
  let ?b = "\<lparr>ID = 2, CHURNRISK = ''High'', label = 0, predictedLabel = ''Low'', prediction = 1,
           probability = [0.4, 0.6]\<rparr>"
  let ?c = "\<lparr>ID = 3, CHURNRISK = ''Low'', label = 1, predictedLabel = ''Low'', prediction = 1,
           probability = [0.1, 0.9]\<rparr>"
  have h: "mset [?c, ?a, ?b] = mset [?a, ?b, ?c]" by simp
  have v: "Model_Precision (\<lambda>a b. (a, b)) [?a, ?b, ?c] = Inr (2, 3)"
    by (simp add: Model_Precision_def)
  from Model_Precision_permutation [OF h, of "\<lambda>a b. (a, b)"] v h show ?thesis
    by simp
qed

section \<open>The split that the evaluation uses\<close>

lemma zip_prediction_label:
  "zip (map prediction res) (map label res) = map (\<lambda>r. (prediction r, label r)) res"
  by (induction res) simp_all

text \<open>
  C5, as stated: the evaluator computes accuracy, per-class F-measure and the
  feature-importance ranking on the test split. The ranking is not computed on the test
  split: cell 38 reads the importances from the model that was fitted on the training
  split. With a fit whose importances count the training rows of each class, two
  different test splits give the same ranking and a different training split gives
  another one.
\<close>

theorem feature_ranking_ignores_test_split:
  "feature_ranking (\<lambda>train. [real (length [r \<leftarrow> train. label r = 0]),
                              real (length [r \<leftarrow> train. label r = 1])]) (\<lambda>m. m)
     [\<lparr>ID = 1, CHURNRISK = ''High'', label = 0, predictedLabel = ''High'', prediction = 0,
       probability = [0.8, 0.2]\<rparr>]
     [\<lparr>ID = 2, CHURNRISK = ''High'', label = 0, predictedLabel = ''Low'', prediction = 1,
       probability = [0.4, 0.6]\<rparr>] = [1, 0] \<and>
   feature_ranking (\<lambda>train. [real (length [r \<leftarrow> train. label r = 0]),
                              real (length [r \<leftarrow> train. label r = 1])]) (\<lambda>m. m)
     [\<lparr>ID = 1, CHURNRISK = ''High'', label = 0, predictedLabel = ''High'', prediction = 0,
       probability = [0.8, 0.2]\<rparr>]
     [\<lparr>ID = 3, CHURNRISK = ''Low'', label = 1, predictedLabel = ''Low'', prediction = 1,
       probability = [0.1, 0.9]\<rparr>] = [1, 0] \<and>
   feature_ranking (\<lambda>train. [real (length [r \<leftarrow> train. label r = 0]),
                              real (length [r \<leftarrow> train. label r = 1])]) (\<lambda>m. m)
     [\<lparr>ID = 3, CHURNRISK = ''Low'', label = 1, predictedLabel = ''Low'', prediction = 1,
       probability = [0.1, 0.9]\<rparr>]
     [\<lparr>ID = 2, CHURNRISK = ''High'', label = 0, predictedLabel = ''Low'', prediction = 1,
       probability = [0.4, 0.6]\<rparr>] = [0, 1]"
  by (simp add: feature_ranking_def argsort_def upt_rec)

text \<open>
  C5, amended: the accuracy of cell 35, the value printed as the model F-measure and the
  F-measure of every distinct label class are computed from \<^verbatim>\<open>model.transform(test)\<close>,
  the fitted model applied to the test split, never from a transform of the training
  split; the feature-importance ranking is read from the model fitted on the training
  split and is the same for every test split. The accuracy is the number of rows of
  \<open>transform (fit train) test\<close> whose label equals the prediction, divided by the number
  of its rows; the printed metrics are those of its prediction and label pairs, with one
  F-measure for each distinct label in ascending order; and a transform that agrees with
  \<open>transform\<close> on the fitted model and the test split, whatever it does on any other
  dataset, gives the same output.
\<close>

theorem evaluation_uses_test_split:
  assumes "transform' (fit train) test = transform (fit train) test"
  shows "evaluate_model fit transform' accuracy fMeasure train test =
           evaluate_model fit transform accuracy fMeasure train test \<and>
         precision_of_run fit transform' fdiv train test =
           precision_of_run fit transform fdiv train test \<and>
         evaluate_model fit transform accuracy fMeasure train test =
           (accuracy (map (\<lambda>r. (prediction r, label r)) (transform (fit train) test)),
            map (\<lambda>l. (l, fMeasure (map (\<lambda>r. (prediction r, label r))
                                     (transform (fit train) test)) l))
              (sort (remdups (map label (transform (fit train) test))))) \<and>
         precision_of_run fit transform fdiv train test =
           (if transform (fit train) test = [] then Inl ZeroDivisionError
            else Inr (fdiv (length [r \<leftarrow> transform (fit train) test. label r = prediction r])
                           (length (transform (fit train) test)))) \<and>
         feature_ranking fit featureImportances train test =
           argsort (featureImportances (fit train)) \<and>
         feature_ranking fit featureImportances train test' =
           feature_ranking fit featureImportances train test"
  using assms
  by (simp add: evaluate_model_def precision_of_run_def Model_Precision_def Let_def
      zip_prediction_label feature_ranking_def)

theorem evaluation_uses_test_split_witness:
  "(\<lambda>(m::nat) d. if d = [\<lparr>ID = 2, CHURNRISK = ''High'', label = 0, predictedLabel = ''Low'',
                             prediction = 1, probability = [0.4, 0.6]\<rparr>,
                           \<lparr>ID = 3, CHURNRISK = ''Low'', label = 1, predictedLabel = ''Low'',
                             prediction = 1, probability = [0.1, 0.9]\<rparr>]
                  then d else [])
      (length [\<lparr>ID = 1, CHURNRISK = ''High'', label = 0, predictedLabel = ''High'',
                 prediction = 0, probability = [0.8, 0.2]\<rparr>])
      [\<lparr>ID = 2, CHURNRISK = ''High'', label = 0, predictedLabel = ''Low'',
         prediction = 1, probability = [0.4, 0.6]\<rparr>,
       \<lparr>ID = 3, CHURNRISK = ''Low'', label = 1, predictedLabel = ''Low'',
         prediction = 1, probability = [0.1, 0.9]\<rparr>] =
   (\<lambda>(m::nat) d. d)
      (length [\<lparr>ID = 1, CHURNRISK = ''High'', label = 0, predictedLabel = ''High'',
                 prediction = 0, probability = [0.8, 0.2]\<rparr>])
      [\<lparr>ID = 2, CHURNRISK = ''High'', label = 0, predictedLabel = ''Low'',
         prediction = 1, probability = [0.4, 0.6]\<rparr>,
       \<lparr>ID = 3, CHURNRISK = ''Low'', label = 1, predictedLabel = ''Low'',
         prediction = 1, probability = [0.1, 0.9]\<rparr>] \<and>
   evaluate_model length
      (\<lambda>(m::nat) d. if d = [\<lparr>ID = 2, CHURNRISK = ''High'', label = 0, predictedLabel = ''Low'',
                             prediction = 1, probability = [0.4, 0.6]\<rparr>,
                           \<lparr>ID = 3, CHURNRISK = ''Low'', label = 1, predictedLabel = ''Low'',
                             prediction = 1, probability = [0.1, 0.9]\<rparr>]
                  then d else [])
      (\<lambda>pl. length [x \<leftarrow> pl. fst x = snd x])
      (\<lambda>pl l. length [x \<leftarrow> pl. snd x = l])
      [\<lparr>ID = 1, CHURNRISK = ''High'', label = 0, predictedLabel = ''High'',
         prediction = 0, probability = [0.8, 0.2]\<rparr>]
      [\<lparr>ID = 2, CHURNRISK = ''High'', label = 0, predictedLabel = ''Low'',
         prediction = 1, probability = [0.4, 0.6]\<rparr>,
       \<lparr>ID = 3, CHURNRISK = ''Low'', label = 1, predictedLabel = ''Low'',
         prediction = 1, probability = [0.1, 0.9]\<rparr>] = (1, [(0, 1), (1, 1)]) \<and>
   precision_of_run length
      (\<lambda>(m::nat) d. if d = [\<lparr>ID = 2, CHURNRISK = ''High'', label = 0, predictedLabel = ''Low'',
                             prediction = 1, probability = [0.4, 0.6]\<rparr>,
                           \<lparr>ID = 3, CHURNRISK = ''Low'', label = 1, predictedLabel = ''Low'',
                             prediction = 1, probability = [0.1, 0.9]\<rparr>]
                  then d else [])
      (\<lambda>a b. (a, b))
      [\<lparr>ID = 1, CHURNRISK = ''High'', label = 0, predictedLabel = ''High'',
         prediction = 0, probability = [0.8, 0.2]\<rparr>]
      [\<lparr>ID = 2, CHURNRISK = ''High'', label = 0, predictedLabel = ''Low'',
         prediction = 1, probability = [0.4, 0.6]\<rparr>,
       \<lparr>ID = 3, CHURNRISK = ''Low'', label = 1, predictedLabel = ''Low'',
         prediction = 1, probability = [0.1, 0.9]\<rparr>] = Inr (1, 2)"
proof -
  let ?train = "[\<lparr>ID = 1, CHURNRISK = ''High'', label = 0, predictedLabel = ''High'',
         prediction = 0, probability = [0.8, 0.2]\<rparr>]"
  let ?test = "[\<lparr>ID = 2, CHURNRISK = ''High'', label = 0, predictedLabel = ''Low'',
         prediction = 1, probability = [0.4, 0.6]\<rparr>,
       \<lparr>ID = 3, CHURNRISK = ''Low'', label = 1, predictedLabel = ''Low'',
         prediction = 1, probability = [0.1, 0.9]\<rparr>]"
  let ?t = "\<lambda>(m::nat) (d::scored list). d"
  let ?t' = "\<lambda>(m::nat) d. if d = ?test then d else []"
  let ?acc = "\<lambda>pl::(real \<times> real) list. length [x \<leftarrow> pl. fst x = snd x]"
  let ?fm = "\<lambda>(pl::(real \<times> real) list) l. length [x \<leftarrow> pl. snd x = l]"
  let ?fdiv = "\<lambda>(a::nat) (b::nat). (a, b)"
  have h: "?t' (length ?train) ?test = ?t (length ?train) ?test" by simp
  note inst = evaluation_uses_test_split
    [of ?t' length ?train ?test ?t ?acc ?fm ?fdiv "\<lambda>m. []" ?test, OF h]
  have e1: "evaluate_model length ?t' ?acc ?fm ?train ?test =
            evaluate_model length ?t ?acc ?fm ?train ?test"
    using inst by (rule conjunct1)
  have e2: "precision_of_run length ?t' ?fdiv ?train ?test =
            precision_of_run length ?t ?fdiv ?train ?test"
    using inst by (elim conjE)
  have v1: "evaluate_model length ?t ?acc ?fm ?train ?test = (1, [(0, 1), (1, 1)])"
    by (simp add: evaluate_model_def)
  have v2: "precision_of_run length ?t ?fdiv ?train ?test = Inr (1, 2)"
    by (simp add: precision_of_run_def Model_Precision_def)
  show ?thesis
    by (intro conjI h) (simp_all only: e1 e2 v1 v2)
qed

section \<open>The two CSV exports\<close>

lemma map_fst_filter_zip:
  "length cols = length r \<Longrightarrow> map fst [cv \<leftarrow> zip cols r. P (fst cv)] = filter P cols"
  by (induction cols r rule: list_induct2) auto

lemma float_column_null_free: "null_free df \<Longrightarrow> \<not> float_column df j"
  by (auto simp: null_free_def float_column_def list_all_iff list_ex_iff)

lemma map_snd_enumerate: "map (\<lambda>jc. f (snd jc)) (enumerate n r) = map f r"
  by (induction r arbitrary: n) simp_all

lemma toPandas_null_free:
  assumes "null_free df"
  shows "pd_values (toPandas df) = map (map (toPandas_value False)) (rows df)"
  using float_column_null_free [OF assms]
  by (simp add: toPandas_def map_snd_enumerate)

lemma toPandas_columns: "pd_columns (toPandas df) = columns df"
  by (simp add: toPandas_def)

lemma toPandas_length:
  "i < length (rows df) \<Longrightarrow> length (pd_values (toPandas df) ! i) = length (rows df ! i)"
  by (simp add: toPandas_def)

lemma toPandas_float_column:
  "toPandas \<lparr>columns = [''ID'', ''CHURNRISK'', ''AGE''],
       rows = [[IntC 1, StrC ''High'', IntC 30], [IntC 2, StrC ''Low'', NullC]]\<rparr> =
   \<lparr>pd_columns = [''ID'', ''CHURNRISK'', ''AGE''],
    pd_values = [[PInt 1, PString ''High'', PFloat 30], [PInt 2, PString ''Low'', PNaN]]\<rparr>"
  by (simp add: toPandas_def float_column_def enumerate_eq_zip upt_rec)

text \<open>
  C6: both exports come from the same test split. The evaluation file has all columns of
  the test split and, for each test row, a record with the row's values as pandas holds
  them. The batch-score file has the same rows with the CHURNRISK column removed and
  every other column unchanged: its header is the test columns without CHURNRISK, it has
  one record for each test row, each record has exactly one value for each remaining
  column, and the column and value pairs of its i-th record are those of the i-th record
  of the evaluation file except the pairs of CHURNRISK, in the same order. When the test
  split holds no null, the values are the cells of the test rows themselves (with a null
  in an integer column pandas would hold that column as floats, as lemma
  \<open>toPandas_float_column\<close> shows; a split with a null does not get past the transform
  of cell 33). The test split has a CHURNRISK column and every row has one cell for each
  column.
\<close>

theorem csv_exports:
  assumes "''CHURNRISK'' \<in> set (columns test)" and "rectangular test"
  shows "\<exists>fs' score eval.
           write_exports test fs = Inr fs' \<and>
           fs' ''../datasets/TradingCustomerSparkMLBatchScore.csv'' = Some score \<and>
           fs' ''../datasets/TradingCustomerSparkMLEval.csv'' = Some eval \<and>
           header eval = columns test \<and>
           records eval = pd_values (toPandas test) \<and>
           (null_free test \<longrightarrow> records eval = map (map (toPandas_value False)) (rows test)) \<and>
           header score = [c \<leftarrow> columns test. c \<noteq> ''CHURNRISK''] \<and>
           ''CHURNRISK'' \<notin> set (header score) \<and>
           length (records score) = length (rows test) \<and>
           (\<forall>i < length (rows test).
              length (records score ! i) = length (header score) \<and>
              zip (header score) (records score ! i) =
                [cv \<leftarrow> zip (columns test) (records eval ! i). fst cv \<noteq> ''CHURNRISK''])"
proof -
  let ?P = "toPandas test"
  let ?score = "\<lparr>header = [c \<leftarrow> columns test. c \<noteq> ''CHURNRISK''],
                 records = map (\<lambda>r. map snd [cv \<leftarrow> zip (columns test) r. fst cv \<noteq> ''CHURNRISK''])
                             (pd_values ?P)\<rparr>"
  let ?eval = "\<lparr>header = columns test, records = pd_values ?P\<rparr>"
  let ?fs = "(fs(''../datasets/TradingCustomerSparkMLBatchScore.csv'' \<mapsto> ?score))
               (''../datasets/TradingCustomerSparkMLEval.csv'' \<mapsto> ?eval)"
  have cols: "pd_columns ?P = columns test" by (simp add: toPandas_def)
  have n: "length (pd_values ?P) = length (rows test)" by (simp add: toPandas_def)
  have run: "write_exports test fs = Inr ?fs"
    using assms(1)
    by (simp add: write_exports_def cell_55_def cell_56_def DataFrame_drop_def cols to_csv_def
        Let_def)
  have row: "length (records ?score ! i) = length (header ?score) \<and>
      zip (header ?score) (records ?score ! i) =
      [cv \<leftarrow> zip (columns test) (records ?eval ! i). fst cv \<noteq> ''CHURNRISK'']"
    if "i < length (rows test)" for i
  proof -
    from that assms(2) have "length (columns test) = length (rows test ! i)"
      by (simp add: rectangular_def list_all_length)
    with that have len: "length (columns test) = length (pd_values ?P ! i)"
      by (simp add: toPandas_length)
    have hd: "header ?score =
        map fst [cv \<leftarrow> zip (columns test) (pd_values ?P ! i). fst cv \<noteq> ''CHURNRISK'']"
      using map_fst_filter_zip [OF len, of "\<lambda>c. c \<noteq> ''CHURNRISK''"] by simp
    have rc: "records ?score ! i =
        map snd [cv \<leftarrow> zip (columns test) (pd_values ?P ! i). fst cv \<noteq> ''CHURNRISK'']"
      using that n by simp
    show ?thesis
      unfolding hd rc by (simp add: zip_map_fst_snd)
  qed
  have nf: "null_free test \<longrightarrow> records ?eval = map (map (toPandas_value False)) (rows test)"
    by (simp add: toPandas_null_free)
  show ?thesis
    apply (rule exI [of _ ?fs], rule exI [of _ ?score], rule exI [of _ ?eval])
    using run row nf n by simp
qed

theorem csv_exports_witness:
  "''CHURNRISK'' \<in> set (columns \<lparr>columns = [''ID'', ''CHURNRISK'', ''AGE''],
       rows = [[IntC 1, StrC ''High'', IntC 30], [IntC 2, StrC ''Low'', IntC 41]]\<rparr>) \<and>
   rectangular \<lparr>columns = [''ID'', ''CHURNRISK'', ''AGE''],
       rows = [[IntC 1, StrC ''High'', IntC 30], [IntC 2, StrC ''Low'', IntC 41]]\<rparr> \<and>
   null_free \<lparr>columns = [''ID'', ''CHURNRISK'', ''AGE''],
       rows = [[IntC 1, StrC ''High'', IntC 30], [IntC 2, StrC ''Low'', IntC 41]]\<rparr> \<and>
   (\<exists>fs'. write_exports \<lparr>columns = [''ID'', ''CHURNRISK'', ''AGE''],
       rows = [[IntC 1, StrC ''High'', IntC 30], [IntC 2, StrC ''Low'', IntC 41]]\<rparr> Map.empty
         = Inr fs' \<and>
      fs' ''../datasets/TradingCustomerSparkMLBatchScore.csv'' =
        Some \<lparr>header = [''ID'', ''AGE''], records = [[PInt 1, PInt 30], [PInt 2, PInt 41]]\<rparr> \<and>
      fs' ''../datasets/TradingCustomerSparkMLEval.csv'' =
        Some \<lparr>header = [''ID'', ''CHURNRISK'', ''AGE''],
              records = [[PInt 1, PString ''High'', PInt 30],
                         [PInt 2, PString ''Low'', PInt 41]]\<rparr>)"
proof -
  let ?T = "\<lparr>columns = [''ID'', ''CHURNRISK'', ''AGE''],
       rows = [[IntC 1, StrC ''High'', IntC 30], [IntC 2, StrC ''Low'', IntC 41]]\<rparr>"
  have h1: "''CHURNRISK'' \<in> set (columns ?T)" by simp
  have h2: "rectangular ?T" by (simp add: rectangular_def)
  have h3: "null_free ?T" by (simp add: null_free_def)
  have v: "write_exports ?T Map.empty =
      Inr [''../datasets/TradingCustomerSparkMLBatchScore.csv'' \<mapsto>
             \<lparr>header = [''ID'', ''AGE''], records = [[PInt 1, PInt 30], [PInt 2, PInt 41]]\<rparr>,
           ''../datasets/TradingCustomerSparkMLEval.csv'' \<mapsto>
             \<lparr>header = [''ID'', ''CHURNRISK'', ''AGE''],
              records = [[PInt 1, PString ''High'', PInt 30],
                         [PInt 2, PString ''Low'', PInt 41]]\<rparr>]"
    by (simp add: write_exports_def cell_55_def cell_56_def DataFrame_drop_def
        toPandas_null_free [OF h3] toPandas_columns to_csv_def Let_def)
  from csv_exports [OF h1 h2, of Map.empty] h1 h2 h3 v show ?thesis
    by simp
qed

section \<open>The scoring request\<close>

text \<open>
  C8: the publisher makes one scoring call, and its payload is the JSON object with the
  key "fields", whose value is the flat list of the sixteen input column names, and the
  key "values", whose value is a list with one row of sixteen values; the i-th value
  belongs to the i-th field name, as the pairing shows (the three categorical fields get
  the three strings).
\<close>

theorem scoring_request:
  "filter is_score (publisher_calls scoring_endpoint) =
     [deployments_score scoring_endpoint scoring_payload] \<and>
   scoring_payload =
     JDict [(''fields'', JList (map JString fields)), (''values'', JList [JList values])] \<and>
   length values = length fields \<and>
   zip fields values =
     [(''ID'', JInt 4), (''GENDER'', JString ''F''), (''STATUS'', JString ''M''),
      (''CHILDREN'', JInt 2), (''ESTINCOME'', JInt 52004), (''HOMEOWNER'', JString ''N''),
      (''AGE'', JInt 60), (''TOTALDOLLARVALUETRADED'', JInt 5030), (''TOTALUNITSTRADED'', JInt 23),
      (''LARGESTSINGLETRANSACTION'', JInt 1257), (''SMALLESTSINGLETRANSACTION'', JInt 125),
      (''PERCENTCHANGECALCULATION'', JInt 3), (''DAYSSINCELASTLOGIN'', JInt 1),
      (''DAYSSINCELASTTRADE'', JInt 1), (''NETREALIZEDGAINS_YTD'', JInt 1000),
      (''NETREALIZEDLOSSES_YTD'', JInt 0)]"
  by (simp add: publisher_calls_def scoring_payload_def fields_def values_def)

section \<open>The tick labels of the feature-importance plot\<close>

lemma argsort_is_argsort: "is_argsort a (argsort a)"
  by (simp add: is_argsort_def argsort_def)

lemma is_argsort_set: "is_argsort a indices \<Longrightarrow> set indices = {0..<length a}"
  by (metis is_argsort_def mset_eq_setD set_upt)

lemma argsort_set: "set (argsort a) = {0..<length a}"
  using argsort_is_argsort by (rule is_argsort_set)

lemma np_take_is_argsort:
  assumes "is_argsort importances indices"
  shows "np_take features indices = Inl IndexError \<longleftrightarrow> length features < length importances"
proof -
  have "list_all (\<lambda>i. i < length features) indices \<longleftrightarrow>
        length importances \<le> length features"
    by (auto simp: list_all_iff is_argsort_set [OF assms] Ball_def) (metis not_less order_refl)
  then show ?thesis by (simp add: np_take_def not_le)
qed

lemma np_take_self: "np_take a (argsort a) = Inr (map (\<lambda>i. a ! i) (argsort a))"
  by (simp add: np_take_def list_all_iff argsort_set)

lemma feature_importance_plot_IndexError_iff:
  "feature_importance_plot features importances = Inl IndexError \<longleftrightarrow>
   length features < length importances"
proof -
  have "feature_importance_plot features importances =
      bind_err (np_take features (argsort importances))
        (\<lambda>ticks. Inr (map (\<lambda>i. importances ! i) (argsort importances), ticks))"
    unfolding feature_importance_plot_def Let_def np_take_self by simp
  moreover have "np_take features (argsort importances) = Inl IndexError \<longleftrightarrow>
      length features < length importances"
    using argsort_is_argsort by (rule np_take_is_argsort)
  ultimately show ?thesis
    by (cases "np_take features (argsort importances)") simp_all
qed

lemma feature_importance_plot_in_range:
  assumes "length importances \<le> length features"
  shows "\<exists>indices. is_argsort importances indices \<and>
           feature_importance_plot features importances =
             Inr (map (\<lambda>i. importances ! i) indices, map (\<lambda>i. features ! i) indices)"
proof -
  have "feature_importance_plot features importances =
      Inr (map (\<lambda>i. importances ! i) (argsort importances),
           map (\<lambda>i. features ! i) (argsort importances))"
    unfolding feature_importance_plot_def Let_def np_take_self
    using assms by (simp add: np_take_def list_all_iff argsort_set)
  with argsort_is_argsort show ?thesis by blast
qed

text \<open>
  C10: every index of \<^verbatim>\<open>argsort(importances)\<close> is a valid index into the array of the raw
  column names. The plot indexes the raw column names with indices that range over the
  importance array, which has at most one entry for each component of the assembled
  vector. The dataframe below has the sixteen scoring fields and the label, seventeen
  columns. When STATUS takes four values its one-hot vector has width 3, and with widths
  1 and 1 for GENDER and HOMEOWNER and thirteen numeric columns the forest has eighteen
  features; when the forest splits on every one of them, the importance array has
  eighteen entries and the index 17 is out of range.
\<close>

theorem feature_importance_plot_IndexError:
  "length (fields @ [''CHURNRISK'']) = 17 \<and>
   length [0.01, 0.02, 0.03, 0.04, 0.05, 0.06, 0.07, 0.08, 0.09,
           0.10, 0.11, 0.12, 0.01, 0.02, 0.03, 0.04, 0.05, 0.06 :: real] = 1 + 3 + 1 + 13 \<and>
   feature_importance_plot (fields @ [''CHURNRISK''])
     [0.01, 0.02, 0.03, 0.04, 0.05, 0.06, 0.07, 0.08, 0.09,
      0.10, 0.11, 0.12, 0.01, 0.02, 0.03, 0.04, 0.05, 0.06] = Inl IndexError"
  by (simp add: feature_importance_plot_IndexError_iff fields_def)

end
